theory Spec2Isabelle
  imports Main "HOL-Library.List_Lexorder" "HOL-Library.Char_ord"
begin

section \<open>Python values used by mcp-sync\<close>

text \<open>
  A Python \<open>dict\<close> is an association list in insertion order (\<open>'v pydict\<close> when
  the keys are strings).
  Looking a key up takes the first pair with that key; \<open>d[k] = v\<close> overwrites the
  pair in place when the key is present and appends it otherwise, which is how a Python
  dict keeps its insertion order.
\<close>

type_synonym 'v pydict = "(string \<times> 'v) list"

definition dict_keys :: "('k \<times> 'v) list \<Rightarrow> 'k list" where
  "dict_keys d = map fst d"

definition dict_get :: "('k \<times> 'v) list \<Rightarrow> 'k \<Rightarrow> 'v option" where
  "dict_get d k = map_of d k"

fun dict_set :: "'k \<Rightarrow> 'v \<Rightarrow> ('k \<times> 'v) list \<Rightarrow> ('k \<times> 'v) list" where
  "dict_set k v [] = [(k, v)]"
| "dict_set k v ((k', v') # d) = (if k' = k then (k, v) # d else (k', v') # dict_set k v d)"

text \<open>\<open>d.update(other)\<close>: every item of \<open>other\<close>, in its order, is stored in \<open>d\<close>.\<close>

definition dict_update :: "('k \<times> 'v) list \<Rightarrow> ('k \<times> 'v) list \<Rightarrow> ('k \<times> 'v) list" where
  "dict_update d other = fold (\<lambda>(k, v) acc. dict_set k v acc) other d"

text \<open>\<open>del d[k]\<close> for a key that is present.\<close>

definition dict_del :: "'k \<Rightarrow> ('k \<times> 'v) list \<Rightarrow> ('k \<times> 'v) list" where
  "dict_del k d = filter (\<lambda>(k', v). k' \<noteq> k) d"

text \<open>\<open>m.get(key, default)\<close> where \<open>None\<close> stands for a missing key.\<close>

definition get_or :: "'a option \<Rightarrow> 'a \<Rightarrow> 'a" where
  "get_or x d = (case x of None \<Rightarrow> d | Some v \<Rightarrow> v)"

text \<open>
  \<open>str.lower()\<close> and \<open>str.strip()\<close> on ASCII text: the letters A to Z are mapped to a to z,
  every other character is kept; the white space stripped is the ASCII white space of
  Python (tab, line feed, vertical tab, form feed, carriage return, the four separators
  0x1C to 0x1F and the blank).
\<close>

definition lower_char :: "char \<Rightarrow> char" where
  "lower_char c =
     (case map_of (zip ''ABCDEFGHIJKLMNOPQRSTUVWXYZ'' ''abcdefghijklmnopqrstuvwxyz'') c of
        None \<Rightarrow> c
      | Some l \<Rightarrow> l)"

definition lower :: "string \<Rightarrow> string" where
  "lower s = map lower_char s"

definition is_space :: "char \<Rightarrow> bool" where
  "is_space c = (c \<in> set [CHR 0x09, CHR 0x0A, CHR 0x0B, CHR 0x0C, CHR 0x0D,
                          CHR 0x1C, CHR 0x1D, CHR 0x1E, CHR 0x1F, CHR 0x20])"

definition strip :: "string \<Rightarrow> string" where
  "strip s = rev (dropWhile is_space (rev (dropWhile is_space s)))"

section \<open>Server entries\<close>

text \<open>
  A server entry is a Python dict over the keys the program reads and writes. Every key
  may be missing (\<open>None\<close>): the code reads each of them with \<open>.get\<close>. The same
  dict type serves for the canonical entry (keys \<open>command\<close>, \<open>args\<close>, \<open>env\<close>,
  \<open>timeout_ms\<close>, \<open>type\<close>) and for a server table of the Codex TOML file
  (keys \<open>command\<close>, \<open>args\<close>, \<open>env\<close>, \<open>startup_timeout_ms\<close>). The key \<open>type\<close> is the
  field \<open>server_type\<close>.
\<close>

record server =
  command :: "string option"
  args :: "string list option"
  env :: "string pydict option"
  timeout_ms :: "int option"
  startup_timeout_ms :: "int option"
  server_type :: "string option"

section \<open>The Codex TOML adapter (toml_support.py)\<close>

subsection \<open>CodexConfig._parse_codex_server\<close>

definition system_vars :: "string list" where
  "system_vars = [''SystemRoot'', ''PROGRAMFILES'', ''SystemDrive'']"

definition parse_codex_server :: "server \<Rightarrow> server" where
  "parse_codex_server server_config =
     (let cmd = get_or (command server_config) '''';
          as = get_or (args server_config) [];
          (result_command, result_args) =
            (if cmd \<noteq> '''' \<and> lower cmd \<in> set [''cmd'', ''cmd.exe''] then
               (if as \<noteq> [] \<and> length as \<ge> 2 then
                  (let first_arg = (if as \<noteq> [] then lower (as ! 0) else '''') in
                   if first_arg \<in> set [''/c'', ''/k''] then
                     (if length as > 1 then as ! 1 else '''',
                      if length as > 2 then drop 2 as else [])
                   else
                     (if as \<noteq> [] then as ! 0 else '''',
                      if length as > 1 then drop 1 as else []))
                else ('''', as))
             else (cmd, as));
          result_env = filter (\<lambda>(k, v). k \<notin> set system_vars) (get_or (env server_config) [])
      in \<lparr> command = Some result_command,
           args = Some result_args,
           env = Some result_env,
           timeout_ms = startup_timeout_ms server_config,
           startup_timeout_ms = None,
           server_type = (if ''--stdio'' \<in> set result_args then Some ''stdio'' else None) \<rparr>)"

subsection \<open>CodexConfig._format_codex_server\<close>

text \<open>Python's \<open>a or b\<close> on optional integers: \<open>None\<close> and \<open>0\<close> are falsy.\<close>

definition py_or :: "int option \<Rightarrow> int option \<Rightarrow> int option" where
  "py_or a b = (if a = None \<or> a = Some 0 then b else a)"

definition backslash :: string where
  "backslash = [CHR 0x5C]"

definition default_SystemRoot :: string where
  "default_SystemRoot = ''C:'' @ backslash @ ''Windows''"

definition default_PROGRAMFILES :: string where
  "default_PROGRAMFILES = ''C:'' @ backslash @ ''Program Files''"

text \<open>
  The loop \<open>for k, v in env.items(): if k not in windows_env: windows_env[k] = v\<close>.
\<close>

definition add_user_env :: "string pydict \<Rightarrow> string pydict \<Rightarrow> string pydict" where
  "add_user_env windows_env e =
     fold (\<lambda>(k, v) acc. if k \<notin> set (dict_keys acc) then dict_set k v acc else acc) e windows_env"

text \<open>
  \<open>is_windows\<close> is the value of \<open>platform.system().lower() == "windows"\<close>, the
  target platform.
\<close>

definition format_codex_server :: "bool \<Rightarrow> server \<Rightarrow> server" where
  "format_codex_server is_windows server_config =
     (let cmd = get_or (command server_config) ''npx'';
          as = get_or (args server_config) [];
          e = get_or (env server_config) [];
          timeout = py_or (timeout_ms server_config) (startup_timeout_ms server_config);
          startup = (case timeout of None \<Rightarrow> 60000 | Some t \<Rightarrow> t)
      in if is_windows then
           \<lparr> command = Some ''cmd'',
             args = Some ([''/c'', cmd]
                          @ (if cmd = ''npx'' \<and> ''-y'' \<notin> set as then [''-y''] else [])
                          @ as),
             env = Some (add_user_env
                           [(''SystemRoot'', get_or (dict_get e ''SystemRoot'') default_SystemRoot),
                            (''PROGRAMFILES'', get_or (dict_get e ''PROGRAMFILES'') default_PROGRAMFILES)]
                           e),
             timeout_ms = None,
             startup_timeout_ms = Some startup,
             server_type = None \<rparr>
         else
           \<lparr> command = Some cmd,
             args = Some (if cmd = ''npx'' \<and> ''-y'' \<notin> set as then ''-y'' # as else as),
             env = Some e,
             timeout_ms = None,
             startup_timeout_ms = Some startup,
             server_type = None \<rparr>)"

subsection \<open>Entries that a write and a read leave steady\<close>

text \<open>\<open>command and command.lower() in ("cmd", "cmd.exe")\<close>.\<close>

definition launcher :: "string \<Rightarrow> bool" where
  "launcher c = (c \<noteq> '''' \<and> lower c \<in> set [''cmd'', ''cmd.exe''])"

text \<open>
  The entries for which the round trip is stated: the \<open>env\<close> is a dict (distinct keys)
  without the three system variables that a read strips; on a platform that writes the
  command directly, the command is not the launcher, which a read would unwrap; and no
  timeout is 0, which Python's \<open>or\<close> takes for a missing one.
\<close>

definition steady :: "bool \<Rightarrow> server \<Rightarrow> bool" where
  "steady windows s =
     (distinct (dict_keys (get_or (env s) [])) \<and>
      list_all (\<lambda>k. k \<notin> set (dict_keys (get_or (env s) []))) system_vars \<and>
      (windows \<or> \<not> launcher (get_or (command s) ''npx'')) \<and>
      timeout_ms s \<noteq> Some 0 \<and> startup_timeout_ms s \<noteq> Some 0)"

text \<open>What a write puts down as arguments and as timeout, in the words of the code.\<close>

definition confirmed_args :: "server \<Rightarrow> string list" where
  "confirmed_args s =
     (if get_or (command s) ''npx'' = ''npx'' \<and> ''-y'' \<notin> set (get_or (args s) [])
      then ''-y'' # get_or (args s) [] else get_or (args s) [])"

definition written_timeout :: "server \<Rightarrow> int" where
  "written_timeout s =
     (case py_or (timeout_ms s) (startup_timeout_ms s) of None \<Rightarrow> 60000 | Some t \<Rightarrow> t)"

definition npx_entry :: server where
  "npx_entry =
     \<lparr> command = Some ''npx'', args = Some [''package''], env = Some [(''API_KEY'', ''test'')],
       timeout_ms = Some 60000, startup_timeout_ms = None, server_type = None \<rparr>"

section \<open>Paths, documents and files\<close>

text \<open>
  A \<open>pathlib\<close> path is the list of its parts (an absolute POSIX path starts with the
  part \<open>/\<close>). \<open>path_name\<close>, \<open>path_suffix\<close> and \<open>relative_to\<close> are the attributes
  \<open>name\<close> and \<open>suffix\<close> and the method \<open>relative_to\<close> of \<open>pathlib\<close>; \<open>path_str\<close> is
  \<open>str(path)\<close>.
\<close>

type_synonym path = "string list"

definition path_name :: "path \<Rightarrow> string" where
  "path_name p =
     (let tail = (if p \<noteq> [] \<and> hd p = ''/'' then tl p else p)
      in if tail = [] then '''' else last tail)"

text \<open>\<open>name.rfind('.')\<close>: the index of the last dot, or \<open>-1\<close>.\<close>

definition rfind_dot :: "string \<Rightarrow> int" where
  "rfind_dot name =
     (if CHR ''.'' \<in> set name
      then int (length name) - 1 - int (length (takeWhile (\<lambda>c. c \<noteq> CHR ''.'') (rev name)))
      else - 1)"

definition path_suffix :: "path \<Rightarrow> string" where
  "path_suffix p =
     (let name = path_name p; i = rfind_dot name
      in if 0 < i \<and> i < int (length name) - 1 then drop (nat i) name else '''')"

fun join_parts :: "string list \<Rightarrow> string" where
  "join_parts [] = ''''"
| "join_parts [x] = x"
| "join_parts (x # y # ys) = x @ ''/'' @ join_parts (y # ys)"

definition path_str :: "path \<Rightarrow> string" where
  "path_str p =
     (if p = [] then ''.''
      else if hd p = ''/'' then ''/'' @ join_parts (tl p)
      else join_parts p)"

text \<open>\<open>p.relative_to(base)\<close>; \<open>None\<close> is the \<open>ValueError\<close>.\<close>

definition relative_to :: "path \<Rightarrow> path \<Rightarrow> path option" where
  "relative_to p base =
     (if take (length base) p = base then Some (drop (length base) p) else None)"

text \<open>
  The dict the adapters exchange: the key \<open>mcpServers\<close> (missing when \<open>None\<close>) and
  the other top-level keys of a JSON document, whose values the program never looks at.
\<close>

record config =
  mcpServers :: "server pydict option"
  other_keys :: "string pydict"

definition empty_config :: config where
  "empty_config = \<lparr> mcpServers = Some [], other_keys = [] \<rparr>"

text \<open>
  A TOML document: the table \<open>mcp_servers\<close> (missing when \<open>None\<close>), whose values are
  server tables or something else, and the other top-level sections.
\<close>

datatype toml_item = Table server | NotTable string

record toml_doc =
  mcp_servers :: "toml_item pydict option"
  other_sections :: "string pydict"

definition empty_doc :: toml_doc where
  "empty_doc = \<lparr> mcp_servers = None, other_sections = [] \<rparr>"

text \<open>
  The text of a file is modelled by what the two parsers make of it: a JSON document
  (\<open>json.load\<close> succeeds, \<open>tomlkit.parse\<close> raises), a TOML document (the other way
  round), or a text neither parser accepts. A JSON document is an object whose
  \<open>mcpServers\<close>, when present, is an object of server entries; the table \<open>mcp_servers\<close>
  of a TOML document, when present, is a table. The file system maps the paths that
  exist to their contents; the paths are files, not directories.
\<close>

datatype content = JsonText config | TomlText toml_doc | OtherText string

type_synonym files = "(path \<times> content) list"

definition path_exists :: "files \<Rightarrow> path \<Rightarrow> bool" where
  "path_exists fs p = (dict_get fs p \<noteq> None)"

text \<open>
  What the program reads from its host: the platform, the home directory, the backup
  root, the clock (already formatted by \<open>strftime("%Y%m%d_%H%M%S_%f")\<close>), and whether
  writing a configuration file or copying a backup raises an I/O error.
\<close>

record host =
  is_windows :: bool
  home :: path
  backup_root :: path
  now :: string
  write_fails :: bool
  backup_fails :: bool

subsection \<open>CodexConfig.read_config and CodexConfig.write_config\<close>

definition codex_read_config :: "files \<Rightarrow> path \<Rightarrow> config" where
  "codex_read_config fs p =
     (case dict_get fs p of
        None \<Rightarrow> empty_config
      | Some (TomlText doc) \<Rightarrow>
          \<lparr> mcpServers = Some
              (fold (\<lambda>(server_id, server_config) servers.
                       case server_config of
                         Table t \<Rightarrow> dict_set server_id (parse_codex_server t) servers
                       | NotTable _ \<Rightarrow> servers)
                    (get_or (mcp_servers doc) []) []),
            other_keys = [] \<rparr>
      | Some _ \<Rightarrow> empty_config)"

text \<open>
  The second loop of \<open>write_config\<close> deletes every key of the table that is not a key of
  the new configuration (\<open>existing_servers - new_server_ids\<close>).
\<close>

definition codex_write_config :: "host \<Rightarrow> files \<Rightarrow> path \<Rightarrow> config \<Rightarrow> bool \<Rightarrow> bool \<times> files" where
  "codex_write_config h fs p cfg preserve_existing =
     (if write_fails h then (False, fs)
      else
        let doc = (if preserve_existing \<and> path_exists fs p
                   then (case dict_get fs p of Some (TomlText d) \<Rightarrow> d | _ \<Rightarrow> empty_doc)
                   else empty_doc);
            table = get_or (mcp_servers doc) [];
            new_servers = get_or (mcpServers cfg) [];
            updated = fold (\<lambda>(server_id, server_config) t.
                              dict_set server_id
                                (Table (format_codex_server (is_windows h) server_config)) t)
                           new_servers table;
            kept = fold dict_del
                     (filter (\<lambda>server_id. server_id \<notin> set (dict_keys new_servers))
                        (remdups (dict_keys updated)))
                     updated
        in (True, dict_set p (TomlText (doc\<lparr>mcp_servers := Some kept\<rparr>)) fs))"

subsection \<open>TomlConfigManager.read_config and TomlConfigManager.write_config\<close>

definition read_config :: "files \<Rightarrow> path \<Rightarrow> string \<Rightarrow> config" where
  "read_config fs p config_format =
     (if config_format = ''toml'' then codex_read_config fs p
      else (case dict_get fs p of
              None \<Rightarrow> empty_config
            | Some (JsonText doc) \<Rightarrow> doc
            | Some _ \<Rightarrow> empty_config))"

definition write_config :: "host \<Rightarrow> files \<Rightarrow> path \<Rightarrow> config \<Rightarrow> string \<Rightarrow> bool \<Rightarrow> bool \<times> files" where
  "write_config h fs p cfg config_format preserve_existing =
     (if config_format = ''toml'' then codex_write_config h fs p cfg preserve_existing
      else if write_fails h then (False, fs)
      else (True, dict_set p (JsonText cfg) fs))"

text \<open>
  A TOML table has each key once: the table \<open>mcp_servers\<close> of the document at a path,
  when there is one, has distinct keys.
\<close>

definition table_ok :: "files \<Rightarrow> path \<Rightarrow> bool" where
  "table_ok fs p =
     (case dict_get fs p of
        Some (TomlText doc) \<Rightarrow> distinct (dict_keys (get_or (mcp_servers doc) []))
      | _ \<Rightarrow> True)"

text \<open>
  Sample data: a Linux and a Windows host without I/O errors, and the configuration of
  the adapter's tests with the entry \<open>npx_entry\<close>.
\<close>

definition sample_toml_path :: path where
  "sample_toml_path = [''/'', ''tmp'', ''config.toml'']"

definition sample_toml_config :: config where
  "sample_toml_config = \<lparr> mcpServers = Some [(''test-server'', npx_entry)], other_keys = [] \<rparr>"

definition linux_host :: host where
  "linux_host =
     \<lparr> is_windows = False, home = [''/'', ''home'', ''user''],
       backup_root = [''/'', ''home'', ''user'', ''.config'', ''mcp-sync'', ''backups''],
       now = ''20240128_123456_000001'', write_fails = False, backup_fails = False \<rparr>"

definition windows_host :: host where
  "windows_host = linux_host\<lparr>is_windows := True\<rparr>"

section \<open>Backups taken by a sync (backup.py)\<close>

text \<open>
  The backup root holds one directory per snapshot, named by its timestamp; a snapshot
  directory is modelled by the files below it, each under its relative path. An entry of
  the backup root that is not a directory is \<open>NotDir\<close>.
\<close>

datatype node = Dir "(path \<times> content) list" | NotDir

type_synonym store = "(string \<times> node) list"

record world =
  files :: files
  backups :: store

text \<open>
  \<open>BackupManager.backup_file\<close>: nothing for a path that does not exist; otherwise the
  file is copied to \<open>backup_root / timestamp / relative_path\<close>. Every exception is caught
  and gives \<open>None\<close>: the I/O error of the host, and the snapshot name being taken by
  something that is not a directory.
\<close>

definition backup_file :: "host \<Rightarrow> world \<Rightarrow> path \<Rightarrow> path option \<times> world" where
  "backup_file h w file_path =
     (case dict_get (files w) file_path of
        None \<Rightarrow> (None, w)
      | Some data \<Rightarrow>
          if backup_fails h then (None, w)
          else
            let timestamp = now h;
                relative_path = (case relative_to file_path (home h) of
                                   Some r \<Rightarrow> r
                                 | None \<Rightarrow> [path_name file_path]);
                backup_path = backup_root h @ [timestamp] @ relative_path
            in (case dict_get (backups w) timestamp of
                  None \<Rightarrow>
                    (Some backup_path,
                     w\<lparr>backups := dict_set timestamp (Dir [(relative_path, data)]) (backups w)\<rparr>)
                | Some (Dir fs) \<Rightarrow>
                    (Some backup_path,
                     w\<lparr>backups := dict_set timestamp (Dir (dict_set relative_path data fs))
                                    (backups w)\<rparr>)
                | Some NotDir \<Rightarrow> (None, w)))"

definition backup_before_sync :: "host \<Rightarrow> world \<Rightarrow> path \<Rightarrow> path option \<times> world" where
  "backup_before_sync h w file_path = backup_file h w file_path"

section \<open>The direct sync engine (direct_sync.py)\<close>

text \<open>
  Python's \<open>==\<close> on two dicts: the same keys with equal values, in any order; on two
  server entries: the same keys, with equal values (the \<open>env\<close> dicts compared as dicts).
\<close>

definition dict_eq :: "'v pydict \<Rightarrow> 'v pydict \<Rightarrow> bool" where
  "dict_eq a b =
     (set (dict_keys a) = set (dict_keys b) \<and>
      list_all (\<lambda>k. dict_get a k = dict_get b k) (dict_keys a))"

definition server_eq :: "server \<Rightarrow> server \<Rightarrow> bool" where
  "server_eq a b =
     (command a = command b \<and> args a = args b \<and>
      (case (env a, env b) of
         (None, None) \<Rightarrow> True
       | (Some x, Some y) \<Rightarrow> dict_eq x y
       | _ \<Rightarrow> False) \<and>
      timeout_ms a = timeout_ms b \<and> startup_timeout_ms a = startup_timeout_ms b \<and>
      server_type a = server_type b)"

text \<open>The three sets computed by \<open>_sync_paths\<close> under "Calculate changes".\<close>

definition servers_to_add :: "server pydict \<Rightarrow> server pydict \<Rightarrow> string set" where
  "servers_to_add source_servers target_servers =
     set (dict_keys source_servers) - set (dict_keys target_servers)"

definition servers_to_update :: "server pydict \<Rightarrow> server pydict \<Rightarrow> string set" where
  "servers_to_update source_servers target_servers =
     set (filter (\<lambda>name. name \<in> set (dict_keys target_servers) \<and>
                    (case (dict_get source_servers name, dict_get target_servers name) of
                       (Some a, Some b) \<Rightarrow> \<not> server_eq a b
                     | _ \<Rightarrow> False))
           (dict_keys source_servers))"

definition servers_to_remove :: "server pydict \<Rightarrow> server pydict \<Rightarrow> string set" where
  "servers_to_remove source_servers target_servers =
     set (dict_keys target_servers) - set (dict_keys source_servers)"

text \<open>
  The result dict of a sync: a failure with its error message, the preview of a dry run,
  or the report of a sync that was applied. The name lists are \<open>sorted(...)\<close> of the
  three sets.
\<close>

record plan =
  to_add :: "string list"
  to_update :: "string list"
  to_remove :: "string list"
  total_changes :: nat

datatype sync_result =
    Failure string
  | DryRun string string plan
  | Synced string string "string option" plan

definition report :: "server pydict \<Rightarrow> server pydict \<Rightarrow> plan" where
  "report source_servers target_servers =
     \<lparr> to_add = sorted_list_of_set (servers_to_add source_servers target_servers),
       to_update = sorted_list_of_set (servers_to_update source_servers target_servers),
       to_remove = sorted_list_of_set (servers_to_remove source_servers target_servers),
       total_changes = card (servers_to_add source_servers target_servers)
                       + card (servers_to_update source_servers target_servers)
                       + card (servers_to_remove source_servers target_servers) \<rparr>"

text \<open>\<open>new_servers = dict(target_servers); new_servers.update(source_servers)\<close>.\<close>

definition merge_servers :: "server pydict \<Rightarrow> server pydict \<Rightarrow> server pydict" where
  "merge_servers target_servers source_servers = dict_update target_servers source_servers"

text \<open>
  \<open>DirectSyncEngine._sync_paths\<close>. The result is the returned dict and the world after
  the call. The line printed on the console when a backup was made is not modelled.
\<close>

definition sync_paths ::
  "host \<Rightarrow> world \<Rightarrow> path \<Rightarrow> path \<Rightarrow> string \<Rightarrow> string \<Rightarrow> string option \<Rightarrow> string option \<Rightarrow> bool
     \<Rightarrow> sync_result \<times> world" where
  "sync_paths h w source_path target_path source_id target_id source_format target_format dry_run =
     (let sf = (case source_format of
                  None \<Rightarrow> (if path_suffix source_path = ''.toml'' then ''toml'' else ''json'')
                | Some f \<Rightarrow> f);
          tf = (case target_format of
                  None \<Rightarrow> (if path_suffix target_path = ''.toml'' then ''toml'' else ''json'')
                | Some f \<Rightarrow> f);
          source_data = read_config (files w) source_path sf;
          source_servers = get_or (mcpServers source_data) []
      in if source_servers = [] then
           (Failure (''No MCP servers found in source: '' @ path_str source_path), w)
         else
           let target_data = read_config (files w) target_path tf;
               target_servers = get_or (mcpServers target_data) []
           in if dry_run then
                (DryRun (path_str source_path) (path_str target_path)
                   (report source_servers target_servers), w)
              else
                let (backup_path, w1) =
                      (if path_exists (files w) target_path
                       then backup_before_sync h w target_path
                       else (None, w));
                    new_servers = merge_servers target_servers source_servers;
                    new_data = \<lparr> mcpServers = Some new_servers, other_keys = [] \<rparr>;
                    (success, fs2) = write_config h (files w1) target_path new_data tf True
                in if \<not> success then
                     (Failure (''Failed to write target configuration: '' @ path_str target_path),
                      w1\<lparr>files := fs2\<rparr>)
                   else
                     (Synced (path_str source_path) (path_str target_path)
                        (map_option path_str backup_path)
                        (report source_servers target_servers),
                      w1\<lparr>files := fs2\<rparr>))"

text \<open>\<open>DirectSyncEngine.sync_by_path\<close>.\<close>

definition sync_by_path ::
  "host \<Rightarrow> world \<Rightarrow> path \<Rightarrow> path \<Rightarrow> string option \<Rightarrow> string option \<Rightarrow> bool
     \<Rightarrow> sync_result \<times> world" where
  "sync_by_path h w source_path target_path source_format target_format dry_run =
     (let sf = (case source_format of
                  None \<Rightarrow> (if path_suffix source_path = ''.toml'' then ''toml'' else ''json'')
                | Some f \<Rightarrow> f);
          tf = (case target_format of
                  None \<Rightarrow> (if path_suffix target_path = ''.toml'' then ''toml'' else ''json'')
                | Some f \<Rightarrow> f)
      in if \<not> path_exists (files w) source_path then
           (Failure (''Source configuration not found: '' @ path_str source_path), w)
         else
           sync_paths h w source_path target_path (path_str source_path) (path_str target_path)
             (Some sf) (Some tf) dry_run)"

section \<open>Notions of the specification\<close>

text \<open>
  The names the plan leaves out, which the specification calls unchanged: the names of
  both configurations whose two entries are equal.
\<close>

definition unchanged :: "server pydict \<Rightarrow> server pydict \<Rightarrow> string set" where
  "unchanged source_servers target_servers =
     set (filter (\<lambda>name. name \<in> set (dict_keys target_servers) \<and>
                    (case (dict_get source_servers name, dict_get target_servers name) of
                       (Some a, Some b) \<Rightarrow> server_eq a b
                     | _ \<Rightarrow> False))
           (dict_keys source_servers))"

text \<open>
  The format a sync uses for one side, in the words of the specification: the format
  argument when one is given; otherwise \<open>toml\<close> when the suffix of the path is \<open>.toml\<close>
  and \<open>json\<close> in every other case.
\<close>

definition format_used :: "path \<Rightarrow> string option \<Rightarrow> string" where
  "format_used p fmt =
     (case fmt of
        Some f \<Rightarrow> f
      | None \<Rightarrow> (if path_suffix p = ''.toml'' then ''toml'' else ''json''))"

section \<open>Sample data\<close>

text \<open>
  The entry \<open>{"command": c, "args": a}\<close> of a JSON configuration, and the files of the
  repository's tests: a source with two servers, an empty source, and a target that
  shares one name with the source.
\<close>

definition json_entry :: "string \<Rightarrow> string list \<Rightarrow> server" where
  "json_entry c a =
     \<lparr> command = Some c, args = Some a, env = None, timeout_ms = None,
       startup_timeout_ms = None, server_type = None \<rparr>"

definition sample_source :: "server pydict" where
  "sample_source =
     [(''server1'', json_entry ''npx'' [''-y'', ''pkg1'']),
      (''server2'', json_entry ''python'' [''script.py''])]"

definition sample_target :: "server pydict" where
  "sample_target =
     [(''server1'', json_entry ''old'' []),
      (''server3'', json_entry ''keep'' [])]"

definition sample_world :: world where
  "sample_world =
     \<lparr> files =
         [([''/'', ''tmp'', ''mcp.json''],
             JsonText \<lparr> mcpServers = Some sample_source, other_keys = [] \<rparr>),
          ([''/'', ''tmp'', ''empty.json''],
             JsonText \<lparr> mcpServers = Some [], other_keys = [] \<rparr>),
          ([''/'', ''tmp'', ''target.json''],
             JsonText \<lparr> mcpServers = Some sample_target, other_keys = [] \<rparr>)],
       backups = [] \<rparr>"

text \<open>
  A Codex target: the file \<open>config.toml\<close> whose table \<open>mcp_servers\<close> holds the one server
  table \<open>keep = {command = "npx", args = ["pkg"]}\<close>, beside the JSON source with two
  servers.
\<close>

definition sample_toml_target :: path where
  "sample_toml_target = [''/'', ''tmp'', ''config.toml'']"

definition sample_toml_world :: world where
  "sample_toml_world =
     \<lparr> files =
         [([''/'', ''tmp'', ''mcp.json''],
             JsonText \<lparr> mcpServers = Some sample_source, other_keys = [] \<rparr>),
          (sample_toml_target,
             TomlText \<lparr> mcp_servers = Some [(''keep'', Table (json_entry ''npx'' [''pkg'']))],
                        other_sections = [] \<rparr>)],
       backups = [] \<rparr>"

section \<open>Listing and cleaning snapshots (backup.py)\<close>

text \<open>
  \<open>sorted(self.backup_root.iterdir(), reverse=True)\<close>: the entries of the backup root,
  compared by their names, in descending order; Python's sort is stable, also when it is
  reversed. A backup root that does not exist is the empty store.
\<close>

definition sorted_reverse :: "store \<Rightarrow> store" where
  "sorted_reverse st = rev (sort_key fst (rev st))"

text \<open>One dict of the list that \<open>list_backups\<close> returns.\<close>

record backup =
  timestamp :: string
  backup_path :: path
  backup_files :: "string list"

text \<open>
  The loop of \<open>BackupManager.list_backups\<close> over the sorted entries: an entry that is not
  a directory is skipped, and a directory is listed when it holds at least one file.
\<close>

fun collect_backups :: "path \<Rightarrow> store \<Rightarrow> backup list" where
  "collect_backups root [] = []"
| "collect_backups root ((name, NotDir) # rest) = collect_backups root rest"
| "collect_backups root ((name, Dir fs) # rest) =
     (let listed = map (\<lambda>(rel_path, data). path_str rel_path) fs
      in if listed \<noteq> [] then
           \<lparr> timestamp = name, backup_path = root @ [name], backup_files = listed \<rparr>
             # collect_backups root rest
         else collect_backups root rest)"

definition list_backups :: "path \<Rightarrow> store \<Rightarrow> backup list" where
  "list_backups root st = collect_backups root (sorted_reverse st)"

text \<open>The slice \<open>xs[k:]\<close>; a negative \<open>k\<close> counts from the end.\<close>

definition slice_from :: "int \<Rightarrow> 'a list \<Rightarrow> 'a list" where
  "slice_from k xs =
     (if k < 0 then drop (nat (int (length xs) + k)) xs else drop (nat k) xs)"

text \<open>
  \<open>BackupManager.cleanup_old_backups\<close>. \<open>rmtree_fails\<close> says for which snapshot names
  \<open>shutil.rmtree\<close> raises; such a snapshot is logged, not counted, and is modelled as
  left in place.
\<close>

definition cleanup_old_backups ::
  "(string \<Rightarrow> bool) \<Rightarrow> path \<Rightarrow> store \<Rightarrow> int \<Rightarrow> int \<times> store" where
  "cleanup_old_backups rmtree_fails root st keep_count =
     (let backups = list_backups root st
      in if int (length backups) \<le> keep_count then (0, st)
         else fold (\<lambda>b (removed, s).
                      if rmtree_fails (timestamp b) then (removed, s)
                      else (removed + 1, dict_del (timestamp b) s))
                   (slice_from keep_count backups) (0, st))"

definition sample_store :: store where
  "sample_store =
     [(''20240128_123456_000003'', Dir [([''mcp.json''], OtherText ''c'')]),
      (''20240128_123456_000001'', Dir [([''mcp.json''], OtherText ''a'')]),
      (''notes.txt'', NotDir),
      (''20240128_123456_000005'', Dir [([''mcp.json''], OtherText ''e'')]),
      (''20240128_123456_000002'', Dir []),
      (''20240128_123456_000004'', Dir [([''.cursor'', ''mcp.json''], OtherText ''d'')])]"

text \<open>The entries that \<open>list_backups\<close> lists: the directories with at least one file.\<close>

definition listed_dir :: "string \<times> node \<Rightarrow> bool" where
  "listed_dir e = (case snd e of NotDir \<Rightarrow> False | Dir fs \<Rightarrow> fs \<noteq> [])"

section \<open>The fuzzy client matcher (fuzzy_match.py)\<close>

definition DEFAULT_KEYWORDS :: "string list pydict" where
  "DEFAULT_KEYWORDS =
     [(''codex'', [''codex'', ''openai'', ''codex cli'']),
      (''claude-code'', [''claude'', ''claude-code'', ''claude code'', ''anthropic'']),
      (''claude-desktop'', [''claude-desktop'', ''claude desktop'', ''anthropic desktop'']),
      (''cursor'', [''cursor'', ''cursor ide'']),
      (''gemini-cli'', [''gemini'', ''gemini cli'', ''google'', ''gcloud'']),
      (''copilot-cli'', [''copilot'', ''copilot cli'', ''github'', ''gh'']),
      (''vscode-user'', [''vscode'', ''vs code'', ''vs-code'', ''code'', ''visual studio code'']),
      (''cline'', [''cline'']),
      (''roo'', [''roo'', ''roo-cline'']),
      (''kilocode-cli'', [''kilocode'', ''kilo'', ''kilocode cli'']),
      (''continue'', [''continue''])]"

text \<open>\<open>name.replace(" ", sub)\<close>.\<close>

definition replace_spaces :: "string \<Rightarrow> string \<Rightarrow> string" where
  "replace_spaces sub name = concat (map (\<lambda>c. if c = CHR '' '' then sub else [c]) name)"

text \<open>\<open>if k not in keywords: keywords.append(k)\<close>.\<close>

definition append_new :: "string \<Rightarrow> string list \<Rightarrow> string list" where
  "append_new k keywords = (if k \<notin> set keywords then keywords @ [k] else keywords)"

text \<open>
  \<open>FuzzyClientMatcher._build_keyword_index\<close>. The client definitions are the dict
  \<open>client_definitions.clients\<close>, each client given by the \<open>name\<close> of its configuration;
  \<open>None\<close> is a matcher built without definitions.
\<close>

definition add_client :: "string \<times> string \<Rightarrow> string list pydict \<Rightarrow> string list pydict" where
  "add_client client keywords =
     (let client_id = fst client;
          keywords1 = (if client_id \<notin> set (dict_keys keywords)
                       then dict_set client_id [] keywords else keywords);
          name = lower (snd client);
          name_no_spaces = replace_spaces '''' name;
          name_hyphens = replace_spaces ''-'' name;
          own = get_or (dict_get keywords1 client_id) []
      in dict_set client_id
           (append_new name_hyphens (append_new name_no_spaces (append_new name own)))
           keywords1)"

definition build_keyword_index :: "string pydict option \<Rightarrow> string list pydict" where
  "build_keyword_index client_definitions =
     (let keywords = fold (\<lambda>(client_id, ks) acc. dict_set client_id ks acc) DEFAULT_KEYWORDS []
      in case client_definitions of
           None \<Rightarrow> keywords
         | Some clients \<Rightarrow> fold add_client clients keywords)"

text \<open>
  The flat list \<open>all_keywords\<close> of pairs \<open>(keyword, client_id)\<close>, in the order of the
  index.
\<close>

definition all_keywords :: "string list pydict \<Rightarrow> (string \<times> string) list" where
  "all_keywords keywords =
     concat (map (\<lambda>(client_id, ks). map (\<lambda>keyword. (keyword, client_id)) ks) keywords)"

text \<open>
  Modelled from the spec: \<open>process.extract\<close> and the scorer \<open>fuzz.WRatio\<close> belong to
  the library \<open>thefuzz\<close>, which is not part of the repository. The scorer is a parameter
  (a similarity from 0 to 100 of the query and a keyword); \<open>process_extract\<close> scores the query
  against every keyword and keeps the \<open>limit\<close> highest-scoring ones, best first, equal
  scores in the order of the keywords.
\<close>

definition process_extract ::
  "(string \<Rightarrow> string \<Rightarrow> int) \<Rightarrow> string \<Rightarrow> string list \<Rightarrow> nat \<Rightarrow> (string \<times> int) list" where
  "process_extract scorer query choices limit =
     take limit (rev (sort_key snd (rev (map (\<lambda>c. (c, scorer query c)) choices))))"

text \<open>One round of the loop over the matches in \<open>find_client\<close>.\<close>

definition best_step ::
  "int \<Rightarrow> (string \<times> string) list \<Rightarrow> string \<times> int \<Rightarrow> string option \<times> int
     \<Rightarrow> string option \<times> int" where
  "best_step threshold all_kw m best =
     (let matched_keyword = fst m; score = snd m; best_client = fst best; best_score = snd best
      in if score \<ge> threshold \<and> score > best_score then
           (case find (\<lambda>(keyword, client_id). keyword = matched_keyword) all_kw of
              Some (keyword, client_id) \<Rightarrow> (Some client_id, score)
            | None \<Rightarrow> (best_client, best_score))
         else (best_client, best_score))"

text \<open>\<open>FuzzyClientMatcher.find_client\<close>, for a matcher whose index is \<open>keywords\<close>.\<close>

definition find_client ::
  "(string \<Rightarrow> string \<Rightarrow> int) \<Rightarrow> string list pydict \<Rightarrow> string \<Rightarrow> int \<Rightarrow> string option \<times> int" where
  "find_client scorer keywords query0 threshold =
     (if query0 = '''' then (None, 0)
      else
        let query = strip (lower query0) in
        if query \<in> set (dict_keys keywords) then (Some query, 100)
        else
          let all_kw = all_keywords keywords in
          case find (\<lambda>(keyword, client_id). query = lower keyword) all_kw of
            Some (keyword, client_id) \<Rightarrow> (Some client_id, 100)
          | None \<Rightarrow>
              let keyword_list = map fst all_kw;
                  matches = process_extract scorer query keyword_list 5
              in if matches = [] then (None, 0)
                 else fold (best_step threshold all_kw) matches (None, 0))"

text \<open>
  The client definitions of the repository's tests (\<open>test_fuzzy_match.py\<close>), and a
  scorer for examples that gives 100 to equal strings and 0 to all others.
\<close>

definition sample_clients :: "string pydict" where
  "sample_clients = [(''claude-code'', ''Claude Code''), (''vscode'', ''VS Code'')]"

definition exact_scorer :: "string \<Rightarrow> string \<Rightarrow> int" where
  "exact_scorer query keyword = (if query = keyword then 100 else 0)"

section \<open>Reading a Codex server table\<close>

text \<open>
  C5. On TOML read, a server table whose command is the launcher (\<open>cmd\<close> or
  \<open>cmd.exe\<close>, compared case-insensitively) and whose argument list begins with a mode
  switch \<open>/c\<close> or \<open>/k\<close> followed by a second argument is unwrapped: the canonical
  command is the second argument and the canonical args are the arguments after it. A
  table whose command is not the launcher keeps its command and its args.
\<close>

theorem parse_codex_server_unwrap:
  "(command t = Some c \<and> lower c \<in> {''cmd'', ''cmd.exe''} \<and>
    args t = Some (sw # real # rest) \<and> lower sw \<in> {''/c'', ''/k''} \<longrightarrow>
      command (parse_codex_server t) = Some real \<and> args (parse_codex_server t) = Some rest)
   \<and> (command t = Some c \<and> lower c \<notin> {''cmd'', ''cmd.exe''} \<and> args t = Some as \<longrightarrow>
      command (parse_codex_server t) = Some c \<and> args (parse_codex_server t) = Some as)"
proof (intro conjI impI)
  assume h: "command t = Some c \<and> lower c \<in> {''cmd'', ''cmd.exe''} \<and>
    args t = Some (sw # real # rest) \<and> lower sw \<in> {''/c'', ''/k''}"
  then have ne: "c \<noteq> ''''"
    by (auto simp: lower_def)
  from h ne show "command (parse_codex_server t) = Some real"
    by (auto simp: parse_codex_server_def get_or_def Let_def)
  from h ne show "args (parse_codex_server t) = Some rest"
    by (auto simp: parse_codex_server_def get_or_def Let_def)
next
  assume h: "command t = Some c \<and> lower c \<notin> {''cmd'', ''cmd.exe''} \<and> args t = Some as"
  from h show "command (parse_codex_server t) = Some c"
    by (auto simp: parse_codex_server_def get_or_def Let_def)
  from h show "args (parse_codex_server t) = Some as"
    by (auto simp: parse_codex_server_def get_or_def Let_def)
qed

text \<open>
  The table \<open>{command: "cmd", args: ["/c", "npx", "-y", "pkg"]}\<close> of the specification
  reads as \<open>{command: "npx", args: ["-y", "pkg"]}\<close>, and a \<open>python\<close> entry is read as
  it stands.
\<close>

theorem parse_codex_server_unwrap_witness:
  "command (parse_codex_server
     \<lparr> command = Some ''cmd'', args = Some [''/c'', ''npx'', ''-y'', ''pkg''],
       env = Some [(''SystemRoot'', ''C:/Windows''), (''API_KEY'', ''test'')],
       timeout_ms = None, startup_timeout_ms = None, server_type = None \<rparr>) = Some ''npx''
   \<and> args (parse_codex_server
     \<lparr> command = Some ''cmd'', args = Some [''/c'', ''npx'', ''-y'', ''pkg''],
       env = Some [(''SystemRoot'', ''C:/Windows''), (''API_KEY'', ''test'')],
       timeout_ms = None, startup_timeout_ms = None, server_type = None \<rparr>)
       = Some [''-y'', ''pkg'']
   \<and> command (parse_codex_server
     \<lparr> command = Some ''python'', args = Some [''/path/to/server.py''], env = None,
       timeout_ms = None, startup_timeout_ms = None, server_type = None \<rparr>) = Some ''python''
   \<and> args (parse_codex_server
     \<lparr> command = Some ''python'', args = Some [''/path/to/server.py''], env = None,
       timeout_ms = None, startup_timeout_ms = None, server_type = None \<rparr>)
       = Some [''/path/to/server.py'']"
  using parse_codex_server_unwrap
          [of "\<lparr> command = Some ''cmd'', args = Some [''/c'', ''npx'', ''-y'', ''pkg''],
                 env = Some [(''SystemRoot'', ''C:/Windows''), (''API_KEY'', ''test'')],
                 timeout_ms = None, startup_timeout_ms = None, server_type = None \<rparr>"
              "''cmd''" "''/c''" "''npx''" "[''-y'', ''pkg'']"]
        parse_codex_server_unwrap
          [of "\<lparr> command = Some ''python'', args = Some [''/path/to/server.py''], env = None,
                 timeout_ms = None, startup_timeout_ms = None, server_type = None \<rparr>"
              "''python''" _ _ _ "[''/path/to/server.py'']"]
  by (simp add: lower_def lower_char_def)

text \<open>
  C10. A server table whose command is \<open>cmd\<close> or \<open>cmd.exe\<close> (case-insensitively) and
  whose argument list has fewer than two elements (a missing list counts as empty) is
  read as an entry with the empty string as command and the argument list copied as it
  is: the launcher is dropped, and no error is reported (the function returns an entry).
\<close>

theorem parse_codex_server_short_launcher:
  "command t = Some c \<Longrightarrow> lower c \<in> {''cmd'', ''cmd.exe''} \<Longrightarrow>
   length (get_or (args t) []) < 2 \<Longrightarrow>
     command (parse_codex_server t) = Some '''' \<and>
     args (parse_codex_server t) = Some (get_or (args t) [])"
proof -
  assume c: "command t = Some c" and l: "lower c \<in> {''cmd'', ''cmd.exe''}"
    and n: "length (get_or (args t) []) < 2"
  from l have ne: "c \<noteq> ''''"
    by (auto simp: lower_def)
  from n have short: "\<not> 2 \<le> length (get_or (args t) [])"
    by simp
  show ?thesis
    using c l ne short by (simp add: parse_codex_server_def get_or_def Let_def)
qed

theorem parse_codex_server_short_launcher_witness:
  "command (parse_codex_server
     \<lparr> command = Some ''CMD.EXE'', args = Some [''/c''], env = None,
       timeout_ms = None, startup_timeout_ms = None, server_type = None \<rparr>) = Some ''''
   \<and> args (parse_codex_server
     \<lparr> command = Some ''CMD.EXE'', args = Some [''/c''], env = None,
       timeout_ms = None, startup_timeout_ms = None, server_type = None \<rparr>) = Some [''/c'']"
  using parse_codex_server_short_launcher
          [of "\<lparr> command = Some ''CMD.EXE'', args = Some [''/c''], env = None,
                 timeout_ms = None, startup_timeout_ms = None, server_type = None \<rparr>"
              "''CMD.EXE''"]
  by (simp add: lower_def lower_char_def get_or_def)

section \<open>Facts about dicts\<close>

lemma dict_keys_simps [simp]:
  "dict_keys [] = []"
  "dict_keys ((k, v) # d) = k # dict_keys d"
  by (simp_all add: dict_keys_def)

lemma dict_get_simps [simp]:
  "dict_get [] k' = None"
  "dict_get ((k, v) # d) k' = (if k' = k then Some v else dict_get d k')"
  by (simp_all add: dict_get_def)

lemma dict_get_dict_set:
  "dict_get (dict_set k v d) k' = (if k' = k then Some v else dict_get d k')"
  by (induction d) auto

lemma keys_dict_set:
  "set (dict_keys (dict_set k v d)) = insert k (set (dict_keys d))"
  by (induction d) (auto split: if_splits)

lemma distinct_dict_set:
  "distinct (dict_keys d) \<Longrightarrow> distinct (dict_keys (dict_set k v d))"
  by (induction d) (auto simp: keys_dict_set)

lemma dict_set_absent:
  "k \<notin> set (dict_keys d) \<Longrightarrow> dict_set k v d = d @ [(k, v)]"
  by (induction d) auto

lemma dict_set_same:
  "dict_get d k = Some v \<Longrightarrow> dict_set k v d = d"
  by (induction d) (auto split: if_splits)

lemma dict_get_in_keys:
  "dict_get d k \<noteq> None \<longleftrightarrow> k \<in> set (dict_keys d)"
  by (induction d) auto

lemma dict_get_None_iff:
  "dict_get d k = None \<longleftrightarrow> k \<notin> set (dict_keys d)"
  using dict_get_in_keys [of d k] by blast

lemma dict_get_fold_set:
  "distinct (dict_keys other) \<Longrightarrow>
   dict_get (fold (\<lambda>(k, v) acc. dict_set k (f v) acc) other d) n =
     (case dict_get other n of Some e \<Rightarrow> Some (f e) | None \<Rightarrow> dict_get d n)"
proof (induction other arbitrary: d)
  case Nil
  then show ?case by simp
next
  case (Cons p other)
  obtain k v where p: "p = (k, v)" by (cases p)
  from Cons.prems have dist: "distinct (dict_keys other)" and k: "k \<notin> set (dict_keys other)"
    by (simp_all add: p)
  from k have none: "dict_get other k = None"
    by (simp add: dict_get_None_iff)
  show ?case
    using Cons.IH [OF dist, of "dict_set k (f v) d"] none
    by (auto simp: p dict_get_dict_set split: option.splits)
qed

lemma keys_fold_set:
  "set (dict_keys (fold (\<lambda>(k, v) acc. dict_set k (f v) acc) other d)) =
     set (dict_keys d) \<union> set (dict_keys other)"
proof (induction other arbitrary: d)
  case Nil
  then show ?case by simp
next
  case (Cons p other)
  obtain k v where p: "p = (k, v)" by (cases p)
  show ?case
    using Cons.IH [of "dict_set k (f v) d"]
    by (auto simp: p keys_dict_set)
qed

lemma distinct_fold_set:
  "distinct (dict_keys d) \<Longrightarrow>
   distinct (dict_keys (fold (\<lambda>(k, v) acc. dict_set k (f v) acc) other d))"
proof (induction other arbitrary: d)
  case Nil
  then show ?case by simp
next
  case (Cons p other)
  obtain k v where p: "p = (k, v)" by (cases p)
  show ?case
    using Cons.IH [of "dict_set k (f v) d"] Cons.prems
    by (simp add: p distinct_dict_set)
qed

section \<open>Facts about the sync engine\<close>

lemma backup_file_files: "files (snd (backup_file h w p)) = files w"
  by (simp add: backup_file_def Let_def split: option.splits node.splits)

lemma format_used_eq:
  "(case fmt of None \<Rightarrow> (if path_suffix p = ''.toml'' then ''toml'' else ''json'') | Some f \<Rightarrow> f)
     = format_used p fmt"
  by (simp add: format_used_def split: option.splits)

lemma format_used_Some: "format_used p (Some f) = f"
  by (simp add: format_used_def)

lemma sync_by_path_eq:
  "sync_by_path h w source_path target_path source_format target_format dry_run =
     (if \<not> path_exists (files w) source_path
      then (Failure (''Source configuration not found: '' @ path_str source_path), w)
      else sync_paths h w source_path target_path (path_str source_path) (path_str target_path)
             (Some (format_used source_path source_format))
             (Some (format_used target_path target_format)) dry_run)"
  unfolding sync_by_path_def format_used_eq by (simp add: Let_def)

lemma sync_paths_eq:
  "sync_paths h w source_path target_path source_id target_id source_format target_format dry_run =
     (let source_servers = get_or (mcpServers (read_config (files w) source_path
                                     (format_used source_path source_format))) [];
          target_servers = get_or (mcpServers (read_config (files w) target_path
                                     (format_used target_path target_format))) []
      in if source_servers = [] then
           (Failure (''No MCP servers found in source: '' @ path_str source_path), w)
         else if dry_run then
           (DryRun (path_str source_path) (path_str target_path)
              (report source_servers target_servers), w)
         else
           let bw = (if path_exists (files w) target_path
                     then backup_before_sync h w target_path else (None, w));
               wr = write_config h (files w) target_path
                      \<lparr> mcpServers = Some (merge_servers target_servers source_servers),
                        other_keys = [] \<rparr>
                      (format_used target_path target_format) True
           in if \<not> fst wr then
                (Failure (''Failed to write target configuration: '' @ path_str target_path),
                 (snd bw)\<lparr>files := snd wr\<rparr>)
              else
                (Synced (path_str source_path) (path_str target_path)
                   (map_option path_str (fst bw)) (report source_servers target_servers),
                 (snd bw)\<lparr>files := snd wr\<rparr>))"
proof -
  have f: "files (snd (if path_exists (files w) target_path
                     then backup_before_sync h w target_path else (None, w))) = files w"
    by (simp add: backup_before_sync_def backup_file_files)
  show ?thesis
    unfolding sync_paths_def format_used_eq
    by (simp add: Let_def case_prod_beta f)
qed

lemma finite_plan_sets:
  "finite (servers_to_add S T)" "finite (servers_to_update S T)" "finite (servers_to_remove S T)"
  by (simp_all add: servers_to_add_def servers_to_update_def servers_to_remove_def)

lemma report_lists:
  "set (to_add (report S T)) = servers_to_add S T"
  "set (to_update (report S T)) = servers_to_update S T"
  "set (to_remove (report S T)) = servers_to_remove S T"
  "total_changes (report S T) =
     length (to_add (report S T)) + length (to_update (report S T)) + length (to_remove (report S T))"
  by (simp_all add: report_def finite_plan_sets)

lemma write_config_ok: "fst (write_config h fs p cfg fmt pe) = (\<not> write_fails h)"
  by (simp add: write_config_def codex_write_config_def Let_def)

lemma read_after_json_write:
  "\<not> write_fails h \<Longrightarrow> fmt \<noteq> ''toml'' \<Longrightarrow>
   read_config (snd (write_config h fs p cfg fmt pe)) p fmt = cfg"
  by (simp add: write_config_def read_config_def dict_get_dict_set)

lemma merge_servers_get:
  "distinct (dict_keys S) \<Longrightarrow>
   dict_get (merge_servers T S) n = (case dict_get S n of Some e \<Rightarrow> Some e | None \<Rightarrow> dict_get T n)"
  using dict_get_fold_set [of S "\<lambda>e. e" T n]
  by (simp add: merge_servers_def dict_update_def)

lemma merge_servers_keys:
  "set (dict_keys (merge_servers T S)) = set (dict_keys T) \<union> set (dict_keys S)"
  using keys_fold_set [of "\<lambda>e. e" S T]
  by (simp add: merge_servers_def dict_update_def)

lemma sample_paths:
  "path_suffix [''/'', ''tmp'', ''empty.json''] = ''.json''"
  "path_suffix [''/'', ''tmp'', ''mcp.json''] = ''.json''"
  "path_suffix [''/'', ''tmp'', ''target.json''] = ''.json''"
  "path_str [''/'', ''tmp'', ''empty.json''] = ''/tmp/empty.json''"
  "path_str [''/'', ''tmp'', ''mcp.json''] = ''/tmp/mcp.json''"
  "path_str [''/'', ''tmp'', ''target.json''] = ''/tmp/target.json''"
  by (simp_all add: path_suffix_def path_name_def rfind_dot_def path_str_def)

lemma sample_reads:
  "get_or (mcpServers (read_config (files sample_world) [''/'', ''tmp'', ''mcp.json'']
             (format_used [''/'', ''tmp'', ''mcp.json''] None))) [] = sample_source"
  "get_or (mcpServers (read_config (files sample_world) [''/'', ''tmp'', ''target.json'']
             (format_used [''/'', ''tmp'', ''target.json''] None))) [] = sample_target"
  by (simp_all add: sample_world_def read_config_def format_used_def sample_paths get_or_def)

lemma sample_plan:
  "servers_to_add sample_source sample_target = {''server2''}"
  "servers_to_update sample_source sample_target = {''server1''}"
  "servers_to_remove sample_source sample_target = {''server3''}"
  by (auto simp: servers_to_add_def servers_to_remove_def servers_to_update_def
      sample_source_def sample_target_def server_eq_def json_entry_def)

lemma sample_report:
  "report sample_source sample_target =
     \<lparr> to_add = [''server2''], to_update = [''server1''], to_remove = [''server3''],
       total_changes = 3 \<rparr>"
  by (simp add: report_def sample_plan)

lemma sample_source_ne: "sample_source \<noteq> []"
  by (simp add: sample_source_def)

lemma sample_merge:
  "merge_servers sample_target sample_source =
     [(''server1'', json_entry ''npx'' [''-y'', ''pkg1'']),
      (''server3'', json_entry ''keep'' []),
      (''server2'', json_entry ''python'' [''script.py''])]"
  by (simp add: merge_servers_def dict_update_def sample_source_def sample_target_def)

text \<open>A file that is not there reads as a configuration without servers.\<close>

lemma read_config_missing:
  "\<not> path_exists fs p \<Longrightarrow> get_or (mcpServers (read_config fs p f)) [] = []"
  by (simp add: path_exists_def read_config_def codex_read_config_def empty_config_def get_or_def)

text \<open>What a sync reads from the sample with the Codex target.\<close>

lemma sample_toml_reads:
  "format_used sample_toml_target None = ''toml''"
  "get_or (mcpServers (read_config (files sample_toml_world) [''/'', ''tmp'', ''mcp.json'']
             (format_used [''/'', ''tmp'', ''mcp.json''] None))) [] = sample_source"
  "get_or (mcpServers (read_config (files sample_toml_world) sample_toml_target
             (format_used sample_toml_target None))) []
     = [(''keep'', \<lparr> command = Some ''npx'', args = Some [''pkg''], env = Some [],
                      timeout_ms = None, startup_timeout_ms = None, server_type = None \<rparr>)]"
  "table_ok (files sample_toml_world) sample_toml_target"
  by code_simp+

section \<open>Facts about the Codex adapter\<close>

lemma lower_cmd_cases:
  "lower ''/c'' = ''/c''" "lower ''cmd'' = ''cmd''"
  by (simp_all add: lower_def lower_char_def)

lemma get_or_simps:
  "get_or None d = d" "get_or (Some v) d = v"
  by (simp_all add: get_or_def)

lemma add_user_env_fresh:
  "distinct (dict_keys e) \<Longrightarrow> set (dict_keys e) \<inter> set (dict_keys init) = {} \<Longrightarrow>
   add_user_env init e = init @ e"
proof (induction e arbitrary: init)
  case Nil
  then show ?case by (simp add: add_user_env_def)
next
  case (Cons p e)
  obtain k v where p: "p = (k, v)" by (cases p)
  from Cons.prems have k: "k \<notin> set (dict_keys init)" and ke: "k \<notin> set (dict_keys e)"
    and d: "distinct (dict_keys e)" and disj: "set (dict_keys e) \<inter> set (dict_keys init) = {}"
    by (auto simp: p)
  have disj': "set (dict_keys e) \<inter> set (dict_keys (init @ [(k, v)])) = {}"
    using disj ke by (auto simp: dict_keys_def)
  have "add_user_env init (p # e) = add_user_env (init @ [(k, v)]) e"
    using k by (simp add: add_user_env_def p dict_set_absent)
  also have "\<dots> = (init @ [(k, v)]) @ e"
    by (rule Cons.IH [OF d disj'])
  finally show ?case by (simp add: p)
qed

lemma filter_system_vars_id:
  "list_all (\<lambda>k. k \<notin> set (dict_keys e)) system_vars \<Longrightarrow>
   filter (\<lambda>(k, v). k \<notin> set system_vars) e = e"
proof -
  assume a: "list_all (\<lambda>k. k \<notin> set (dict_keys e)) system_vars"
  have "\<forall>x \<in> set e. (\<lambda>(k, v). k \<notin> set system_vars) x"
  proof
    fix x assume x: "x \<in> set e"
    then have "fst x \<in> set (dict_keys e)" by (simp add: dict_keys_def)
    with a have "fst x \<notin> set system_vars" by (auto simp: list_all_iff)
    then show "(\<lambda>(k, v). k \<notin> set system_vars) x" by (simp add: case_prod_beta)
  qed
  then show ?thesis by (simp add: filter_id_conv)
qed

lemma steady_env:
  assumes "steady windows s"
  shows "distinct (dict_keys (get_or (env s) []))"
    and "''SystemRoot'' \<notin> set (dict_keys (get_or (env s) []))"
    and "''PROGRAMFILES'' \<notin> set (dict_keys (get_or (env s) []))"
    and "filter (\<lambda>(k, v). k \<notin> set system_vars) (get_or (env s) []) = get_or (env s) []"
  using assms filter_system_vars_id [of "get_or (env s) []"]
  by (simp_all add: steady_def system_vars_def)

lemma parse_format_windows:
  assumes st: "steady True s"
  shows "parse_codex_server (format_codex_server True s) =
           \<lparr> command = Some (get_or (command s) ''npx''),
             args = Some (confirmed_args s),
             env = Some (get_or (env s) []),
             timeout_ms = Some (written_timeout s),
             startup_timeout_ms = None,
             server_type = (if ''--stdio'' \<in> set (confirmed_args s) then Some ''stdio'' else None) \<rparr>"
proof -
  let ?e = "get_or (env s) []"
  note se = steady_env [OF st]
  have none: "dict_get ?e ''SystemRoot'' = None" "dict_get ?e ''PROGRAMFILES'' = None"
    using se(2,3) by (simp_all add: dict_get_None_iff)
  have fresh: "add_user_env [(''SystemRoot'', default_SystemRoot),
                             (''PROGRAMFILES'', default_PROGRAMFILES)] ?e
                 = (''SystemRoot'', default_SystemRoot)
                     # (''PROGRAMFILES'', default_PROGRAMFILES) # ?e"
    using add_user_env_fresh [of ?e "[(''SystemRoot'', default_SystemRoot),
                                      (''PROGRAMFILES'', default_PROGRAMFILES)]"] se(1,2,3)
    by simp
  have mem: "''SystemRoot'' \<in> set system_vars" "''PROGRAMFILES'' \<in> set system_vars"
    by (simp_all add: system_vars_def)
  show ?thesis
    by (simp add: parse_codex_server_def format_codex_server_def Let_def none fresh mem se(4)
        lower_cmd_cases confirmed_args_def written_timeout_def get_or_simps)
qed

lemma parse_format_direct:
  assumes st: "steady False s"
  shows "parse_codex_server (format_codex_server False s) =
           \<lparr> command = Some (get_or (command s) ''npx''),
             args = Some (confirmed_args s),
             env = Some (get_or (env s) []),
             timeout_ms = Some (written_timeout s),
             startup_timeout_ms = None,
             server_type = (if ''--stdio'' \<in> set (confirmed_args s) then Some ''stdio'' else None) \<rparr>"
proof -
  note se = steady_env [OF st]
  let ?c = "get_or (command s) ''npx''"
  from st have nl: "\<not> (?c \<noteq> '''' \<and> lower ?c \<in> set [''cmd'', ''cmd.exe''])"
    by (simp add: steady_def launcher_def)
  have f: "format_codex_server False s =
             \<lparr> command = Some ?c, args = Some (confirmed_args s), env = Some (get_or (env s) []),
               timeout_ms = None, startup_timeout_ms = Some (written_timeout s),
               server_type = None \<rparr>"
    by (simp add: format_codex_server_def Let_def confirmed_args_def written_timeout_def)
  show ?thesis
    unfolding f parse_codex_server_def
    by (simp only: Let_def get_or_simps server.simps nl if_False prod.case se(4))
qed

lemma parse_format:
  "steady windows s \<Longrightarrow>
   parse_codex_server (format_codex_server windows s) =
     \<lparr> command = Some (get_or (command s) ''npx''),
       args = Some (confirmed_args s),
       env = Some (get_or (env s) []),
       timeout_ms = Some (written_timeout s),
       startup_timeout_ms = None,
       server_type = (if ''--stdio'' \<in> set (confirmed_args s) then Some ''stdio'' else None) \<rparr>"
  by (cases windows) (simp_all add: parse_format_windows parse_format_direct)

lemma written_timeout_nonzero:
  "steady windows s \<Longrightarrow> written_timeout s \<noteq> 0"
  by (auto simp: steady_def written_timeout_def py_or_def split: option.splits if_splits)

lemma confirmed_args_idem:
  "get_or (command s) ''npx'' = ''npx'' \<Longrightarrow> ''-y'' \<in> set (confirmed_args s)"
  by (simp add: confirmed_args_def)

lemma format_parse_format:
  assumes st: "steady windows s"
  shows "format_codex_server windows (parse_codex_server (format_codex_server windows s))
           = format_codex_server windows s"
proof -
  let ?c = "get_or (command s) ''npx''"
  have t: "py_or (Some (written_timeout s)) None = Some (written_timeout s)"
    using written_timeout_nonzero [OF st] by (simp add: py_or_def)
  have a: "\<not> (?c = ''npx'' \<and> ''-y'' \<notin> set (confirmed_args s))"
    using confirmed_args_idem [of s] by blast
  have l: "format_codex_server windows (parse_codex_server (format_codex_server windows s))
         = (if windows then
             \<lparr> command = Some ''cmd'', args = Some ([''/c'', ?c] @ [] @ confirmed_args s),
               env = Some (add_user_env
                             [(''SystemRoot'',
                               get_or (dict_get (get_or (env s) []) ''SystemRoot'') default_SystemRoot),
                              (''PROGRAMFILES'',
                               get_or (dict_get (get_or (env s) []) ''PROGRAMFILES'') default_PROGRAMFILES)]
                             (get_or (env s) [])),
               timeout_ms = None, startup_timeout_ms = Some (written_timeout s),
               server_type = None \<rparr>
            else
             \<lparr> command = Some ?c, args = Some (confirmed_args s), env = Some (get_or (env s) []),
               timeout_ms = None, startup_timeout_ms = Some (written_timeout s),
               server_type = None \<rparr>)"
    unfolding parse_format [OF st]
    by (simp add: format_codex_server_def Let_def get_or_simps t a)
  have r: "format_codex_server windows s
         = (if windows then
             \<lparr> command = Some ''cmd'', args = Some ([''/c'', ?c] @ [] @ confirmed_args s),
               env = Some (add_user_env
                             [(''SystemRoot'',
                               get_or (dict_get (get_or (env s) []) ''SystemRoot'') default_SystemRoot),
                              (''PROGRAMFILES'',
                               get_or (dict_get (get_or (env s) []) ''PROGRAMFILES'') default_PROGRAMFILES)]
                             (get_or (env s) [])),
               timeout_ms = None, startup_timeout_ms = Some (written_timeout s),
               server_type = None \<rparr>
            else
             \<lparr> command = Some ?c, args = Some (confirmed_args s), env = Some (get_or (env s) []),
               timeout_ms = None, startup_timeout_ms = Some (written_timeout s),
               server_type = None \<rparr>)"
    by (simp add: format_codex_server_def Let_def confirmed_args_def written_timeout_def)
  show ?thesis
    by (rule trans [OF l r [symmetric]])
qed

lemma fold_dict_del:
  "fold dict_del ks d = filter (\<lambda>e. fst e \<notin> set ks) d"
proof (induction ks arbitrary: d)
  case Nil
  then show ?case by simp
next
  case (Cons k ks)
  have "fold dict_del (k # ks) d = filter (\<lambda>e. fst e \<notin> set ks) (dict_del k d)"
    using Cons.IH [of "dict_del k d"] by simp
  also have "\<dots> = filter (\<lambda>e. fst e \<notin> set (k # ks)) d"
    by (induction d) (auto simp: dict_del_def)
  finally show ?case .
qed

lemma kept_filter:
  "fold dict_del (filter (\<lambda>k. k \<notin> set ks) (remdups (dict_keys U))) U
     = filter (\<lambda>e. fst e \<in> set ks) U"
proof -
  have "filter (\<lambda>e. fst e \<notin> set (filter (\<lambda>k. k \<notin> set ks) (remdups (dict_keys U)))) U
          = filter (\<lambda>e. fst e \<in> set ks) U"
    by (rule filter_cong) (auto simp: dict_keys_def)
  then show ?thesis
    by (simp only: fold_dict_del)
qed

lemma dict_get_member:
  "distinct (dict_keys d) \<Longrightarrow> e \<in> set d \<Longrightarrow> dict_get d (fst e) = Some (snd e)"
  by (simp add: dict_get_def dict_keys_def)

lemma dict_get_SomeD:
  "dict_get d k = Some v \<Longrightarrow> (k, v) \<in> set d"
  by (simp add: dict_get_def map_of_SomeD)

text \<open>The read loop over a table whose items are all server tables.\<close>

lemma fold_read_tables:
  "\<forall>e \<in> set L. snd e = Table (tb (fst e)) \<Longrightarrow> distinct (dict_keys L) \<Longrightarrow>
   set (dict_keys L) \<inter> set (dict_keys acc) = {} \<Longrightarrow>
   fold (\<lambda>(server_id, server_config) servers.
           case server_config of
             Table t \<Rightarrow> dict_set server_id (parse_codex_server t) servers
           | NotTable _ \<Rightarrow> servers) L acc
     = acc @ map (\<lambda>e. (fst e, parse_codex_server (tb (fst e)))) L"
proof (induction L arbitrary: acc)
  case Nil
  then show ?case by simp
next
  case (Cons e L)
  obtain k it where e: "e = (k, it)" by (cases e)
  from Cons.prems(1) have it: "it = Table (tb k)" and rest: "\<forall>e \<in> set L. snd e = Table (tb (fst e))"
    by (simp_all add: e)
  from Cons.prems(2) have d: "distinct (dict_keys L)" and kL: "k \<notin> set (dict_keys L)"
    by (simp_all add: e)
  from Cons.prems(3) have ka: "k \<notin> set (dict_keys acc)"
    and disj: "set (dict_keys L) \<inter> set (dict_keys acc) = {}"
    by (auto simp: e)
  have disj': "set (dict_keys L) \<inter> set (dict_keys (acc @ [(k, parse_codex_server (tb k))])) = {}"
    using disj kL by (auto simp: dict_keys_def)
  show ?case
    using Cons.IH [OF rest d disj']
    by (simp add: e it dict_set_absent [OF ka])
qed

text \<open>Writing entries that the table already holds changes nothing.\<close>

lemma fold_set_same:
  "\<forall>e \<in> set L. dict_get T (fst e) = Some (G (snd e)) \<Longrightarrow>
   fold (\<lambda>(k, s) t. dict_set k (G s) t) L T = T"
proof (induction L)
  case Nil
  then show ?case by simp
next
  case (Cons e L)
  obtain k s where e: "e = (k, s)" by (cases e)
  from Cons.prems have g: "dict_get T k = Some (G s)"
    and rest: "\<forall>e \<in> set L. dict_get T (fst e) = Some (G (snd e))"
    by (simp_all add: e)
  show ?case
    using Cons.IH [OF rest] by (simp add: e dict_set_same [OF g])
qed

text \<open>Writing entries into an empty table lists them in their order.\<close>

lemma fold_set_fresh:
  "distinct (dict_keys L) \<Longrightarrow> set (dict_keys L) \<inter> set (dict_keys acc) = {} \<Longrightarrow>
   fold (\<lambda>(k, s) t. dict_set k (G s) t) L acc = acc @ map (\<lambda>e. (fst e, G (snd e))) L"
proof (induction L arbitrary: acc)
  case Nil
  then show ?case by simp
next
  case (Cons e L)
  obtain k s where e: "e = (k, s)" by (cases e)
  from Cons.prems have d: "distinct (dict_keys L)" and kL: "k \<notin> set (dict_keys L)"
    and ka: "k \<notin> set (dict_keys acc)"
    and disj: "set (dict_keys L) \<inter> set (dict_keys acc) = {}"
    by (auto simp: e)
  have disj': "set (dict_keys L) \<inter> set (dict_keys (acc @ [(k, G s)])) = {}"
    using disj kL by (auto simp: dict_keys_def)
  show ?case
    using Cons.IH [OF d disj']
    by (simp add: e dict_set_absent [OF ka])
qed

lemma codex_write_read_write:
  assumes io: "\<not> write_fails h"
    and cfg: "mcpServers cfg = Some C"
    and dist: "distinct (dict_keys C)"
    and steady: "\<forall>e \<in> set C. steady (is_windows h) (snd e)"
    and ok: "table_ok fs p"
  shows "fst (codex_write_config h fs p cfg pe)"
    and "\<exists>C1. mcpServers (codex_read_config (snd (codex_write_config h fs p cfg pe)) p) = Some C1
           \<and> distinct (dict_keys C1) \<and> set (dict_keys C1) = set (dict_keys C)
           \<and> (\<forall>n s. dict_get C n = Some s \<longrightarrow>
                 dict_get C1 n
                   = Some (parse_codex_server (format_codex_server (is_windows h) s)))"
    and "codex_write_config h (snd (codex_write_config h fs p cfg pe)) p
           (codex_read_config (snd (codex_write_config h fs p cfg pe)) p) pe
         = (True, snd (codex_write_config h fs p cfg pe))"
proof -
  let ?w = "is_windows h"
  define F where "F = (\<lambda>s. Table (format_codex_server ?w s))"
  define doc0 where "doc0 = (if pe \<and> path_exists fs p
                   then (case dict_get fs p of Some (TomlText d) \<Rightarrow> d | _ \<Rightarrow> empty_doc)
                   else empty_doc)"
  define T0 where "T0 = get_or (mcp_servers doc0) []"
  define U where "U = fold (\<lambda>(k, s) t. dict_set k (F s) t) C T0"
  define K where "K = filter (\<lambda>e. fst e \<in> set (dict_keys C)) U"
  define doc1 where "doc1 = doc0\<lparr>mcp_servers := Some K\<rparr>"
  define fs1 where "fs1 = dict_set p (TomlText doc1) fs"
  define tb where "tb = (\<lambda>n. format_codex_server ?w (get_or (dict_get C n) undefined))"
  define C1 where "C1 = map (\<lambda>e. (fst e, parse_codex_server (tb (fst e)))) K"

  have w1: "codex_write_config h fs p cfg pe = (True, fs1)"
    using io
    by (simp add: codex_write_config_def Let_def cfg get_or_simps kept_filter
        fs1_def doc1_def K_def U_def T0_def doc0_def F_def)
  show "fst (codex_write_config h fs p cfg pe)"
    by (simp add: w1)

  have dT0: "distinct (dict_keys T0)"
    using ok
    by (auto simp: T0_def doc0_def table_ok_def empty_doc_def get_or_simps path_exists_def
        split: option.splits content.splits)
  have dU: "distinct (dict_keys U)"
    unfolding U_def by (rule distinct_fold_set [OF dT0])
  have getU: "dict_get U n = (case dict_get C n of Some s \<Rightarrow> Some (F s) | None \<Rightarrow> dict_get T0 n)" for n
    unfolding U_def by (rule dict_get_fold_set [OF dist])
  have keysU: "set (dict_keys U) = set (dict_keys T0) \<union> set (dict_keys C)"
    unfolding U_def by (rule keys_fold_set)
  have dK: "distinct (dict_keys K)"
    using dU by (simp add: K_def dict_keys_def distinct_map_filter)
  have "dict_keys K = filter (\<lambda>k. k \<in> set (dict_keys C)) (dict_keys U)"
    by (simp add: K_def dict_keys_def filter_map comp_def)
  then have keysK: "set (dict_keys K) = set (dict_keys C)"
    using keysU by auto
  have itemK: "snd e = Table (tb (fst e))" if e: "e \<in> set K" for e
  proof -
    from e have eU: "e \<in> set U" and eC: "fst e \<in> set (dict_keys C)"
      by (simp_all add: K_def)
    from eC obtain s where s: "dict_get C (fst e) = Some s"
      using dict_get_in_keys [of C "fst e"] by auto
    from dict_get_member [OF dU eU] getU [of "fst e"] s have "snd e = F s"
      by simp
    with s show ?thesis
      by (simp add: F_def tb_def get_or_simps)
  qed
  have getK: "dict_get K n = Some (Table (tb n))" if n: "n \<in> set (dict_keys C)" for n
  proof -
    from n keysK have "n \<in> set (dict_keys K)" by simp
    then obtain e where e: "e \<in> set K" and f: "fst e = n"
      by (auto simp: dict_keys_def)
    from dict_get_member [OF dK e] itemK [OF e] f show ?thesis
      by simp
  qed

  have p1: "dict_get fs1 p = Some (TomlText doc1)"
    by (simp add: fs1_def dict_get_dict_set)
  have read1: "codex_read_config fs1 p = \<lparr> mcpServers = Some C1, other_keys = [] \<rparr>"
    using fold_read_tables [of K tb "[]"] itemK dK
    by (simp add: codex_read_config_def p1 doc1_def get_or_simps C1_def)
  have keysC1: "dict_keys C1 = dict_keys K"
    by (simp add: C1_def dict_keys_def comp_def)
  have dC1: "distinct (dict_keys C1)"
    using dK by (simp add: keysC1)
  have getC1: "dict_get C1 n = Some (parse_codex_server (format_codex_server ?w s))"
    if s: "dict_get C n = Some s" for n s
  proof -
    from s have n: "n \<in> set (dict_keys C)"
      using dict_get_in_keys [of C n] by simp
    with keysK have "n \<in> set (dict_keys K)" by simp
    then obtain e where e: "e \<in> set K" and f: "fst e = n"
      by (auto simp: dict_keys_def)
    have "(n, parse_codex_server (tb n)) \<in> set C1"
      using e f by (force simp: C1_def)
    from dict_get_member [OF dC1 this] s show ?thesis
      by (simp add: tb_def get_or_simps)
  qed
  show "\<exists>C1. mcpServers (codex_read_config (snd (codex_write_config h fs p cfg pe)) p) = Some C1
           \<and> distinct (dict_keys C1) \<and> set (dict_keys C1) = set (dict_keys C)
           \<and> (\<forall>n s. dict_get C n = Some s \<longrightarrow>
                 dict_get C1 n
                   = Some (parse_codex_server (format_codex_server (is_windows h) s)))"
    using getC1 dK keysK by (intro exI [of _ C1]) (simp add: w1 read1 keysC1)

  have again: "F (snd e) = Table (tb (fst e))" if e: "e \<in> set C1" for e
  proof -
    from e obtain k where k: "k \<in> set K" and e': "e = (fst k, parse_codex_server (tb (fst k)))"
      by (auto simp: C1_def)
    from k have kC: "fst k \<in> set (dict_keys C)"
      by (simp add: K_def)
    then obtain s where s: "dict_get C (fst k) = Some s"
      using dict_get_in_keys [of C "fst k"] by auto
    from dict_get_SomeD [OF s] steady have st: "steady ?w s"
      by force
    show ?thesis
      using format_parse_format [OF st] s by (simp add: e' F_def tb_def get_or_simps)
  qed
  have same: "dict_get K (fst e) = Some (F (snd e))" if e: "e \<in> set C1" for e
  proof -
    from e have "fst e \<in> set (dict_keys C1)"
      by (simp add: dict_keys_def)
    then have "fst e \<in> set (dict_keys C)"
      by (simp add: keysC1 keysK)
    from getK [OF this] again [OF e] show ?thesis
      by simp
  qed
  have K1: "filter (\<lambda>e. fst e \<in> set (dict_keys C1)) K = K"
    unfolding keysC1 by (rule filter_True) (simp add: dict_keys_def)
  have d1: "doc1\<lparr>mcp_servers := Some K\<rparr> = doc1"
    by (simp add: doc1_def)
  have m1: "get_or (mcp_servers doc1) [] = K"
    by (simp add: doc1_def get_or_simps)
  have second: "codex_write_config h fs1 p (codex_read_config fs1 p) pe = (True, fs1)"
  proof (cases pe)
    case True
    have U1: "fold (\<lambda>(k, s) t. dict_set k (F s) t) C1 K = K"
      using same by (intro fold_set_same) blast
    have "codex_write_config h fs1 p (codex_read_config fs1 p) pe
          = (True, dict_set p
               (TomlText (doc1\<lparr>mcp_servers := Some
                  (filter (\<lambda>e. fst e \<in> set (dict_keys C1))
                     (fold (\<lambda>(k, s) t. dict_set k (F s) t) C1
                        (get_or (mcp_servers doc1) [])))\<rparr>)) fs1)"
      using io True
      by (simp add: codex_write_config_def Let_def read1 get_or_simps kept_filter p1
          path_exists_def F_def)
    also have "\<dots> = (True, fs1)"
      by (simp only: m1 U1 K1 d1 dict_set_same [OF p1])
    finally show ?thesis .
  next
    case False
    have e0: "doc1 = empty_doc\<lparr>mcp_servers := Some K\<rparr>"
      using False by (simp add: doc1_def doc0_def)
    have "map (\<lambda>e. (fst e, F (snd e))) C1 = map (\<lambda>e. (fst e, Table (tb (fst e)))) C1"
      using again by (intro map_cong) simp_all
    also have "\<dots> = map (\<lambda>e. (fst e, Table (tb (fst e)))) K"
      by (simp add: C1_def comp_def)
    also have "\<dots> = map (\<lambda>e. e) K"
      using itemK by (intro map_cong) (simp_all add: prod_eq_iff)
    finally have mapK: "map (\<lambda>e. (fst e, F (snd e))) C1 = K"
      by simp
    have U1: "fold (\<lambda>(k, s) t. dict_set k (F s) t) C1 [] = K"
      using fold_set_fresh [of C1 "[]" F] dC1 mapK by simp
    have "codex_write_config h fs1 p (codex_read_config fs1 p) pe
          = (True, dict_set p
               (TomlText (empty_doc\<lparr>mcp_servers := Some
                  (filter (\<lambda>e. fst e \<in> set (dict_keys C1))
                     (fold (\<lambda>(k, s) t. dict_set k (F s) t) C1 []))\<rparr>)) fs1)"
      using io False
      by (simp add: codex_write_config_def Let_def read1 get_or_simps kept_filter
          F_def empty_doc_def)
    also have "\<dots> = (True, fs1)"
      by (simp only: U1 K1 e0 [symmetric] dict_set_same [OF p1])
    finally show ?thesis .
  qed
  then show "codex_write_config h (snd (codex_write_config h fs p cfg pe)) p
           (codex_read_config (snd (codex_write_config h fs p cfg pe)) p) pe
         = (True, snd (codex_write_config h fs p cfg pe))"
    by (simp add: w1)
qed

text \<open>
  What a write leaves in the table \<open>mcp_servers\<close> and what a read then makes of it, for
  any entries.
\<close>

lemma distinct_read_fold:
  "distinct (dict_keys acc) \<Longrightarrow>
   distinct (dict_keys (fold (\<lambda>(server_id, server_config) servers.
           case server_config of
             Table t \<Rightarrow> dict_set server_id (parse_codex_server t) servers
           | NotTable _ \<Rightarrow> servers) L acc))"
proof (induction L arbitrary: acc)
  case Nil
  then show ?case by simp
next
  case (Cons e L)
  obtain k it where e: "e = (k, it)" by (cases e)
  show ?case
  proof (cases it)
    case (Table t)
    show ?thesis
      using Cons.IH [of "dict_set k (parse_codex_server t) acc"] Cons.prems
      by (simp add: e Table distinct_dict_set)
  next
    case (NotTable x)
    show ?thesis
      using Cons.IH [of acc] Cons.prems by (simp add: e NotTable)
  qed
qed

lemma distinct_codex_read:
  "distinct (dict_keys (get_or (mcpServers (codex_read_config fs p)) []))"
proof (cases "dict_get fs p")
  case None
  then show ?thesis
    by (simp add: codex_read_config_def empty_config_def get_or_simps)
next
  case (Some c)
  show ?thesis
  proof (cases c)
    case (TomlText doc)
    have "distinct (dict_keys ([] :: server pydict))"
      by simp
    from distinct_read_fold [OF this, of "get_or (mcp_servers doc) []"] show ?thesis
      by (simp add: codex_read_config_def Some TomlText get_or_simps)
  qed (simp_all add: codex_read_config_def Some empty_config_def get_or_simps)
qed

lemma distinct_merge_servers:
  "distinct (dict_keys T) \<Longrightarrow> distinct (dict_keys (merge_servers T S))"
  using distinct_fold_set [of T "\<lambda>e. e" S]
  by (simp add: merge_servers_def dict_update_def)

lemma codex_write_read:
  assumes io: "\<not> write_fails h"
    and cfg: "mcpServers cfg = Some C"
    and dist: "distinct (dict_keys C)"
    and ok: "table_ok fs p"
  shows "\<exists>doc C1.
           dict_get (snd (codex_write_config h fs p cfg pe)) p = Some (TomlText doc)
         \<and> (\<forall>n. dict_get (get_or (mcp_servers doc) []) n
                  = map_option (\<lambda>s. Table (format_codex_server (is_windows h) s)) (dict_get C n))
         \<and> mcpServers (codex_read_config (snd (codex_write_config h fs p cfg pe)) p) = Some C1
         \<and> set (dict_keys C1) = set (dict_keys C)
         \<and> (\<forall>n. dict_get C1 n
                  = map_option (\<lambda>s. parse_codex_server (format_codex_server (is_windows h) s))
                      (dict_get C n))"
proof -
  let ?w = "is_windows h"
  define F where "F = (\<lambda>s. Table (format_codex_server ?w s))"
  define doc0 where "doc0 = (if pe \<and> path_exists fs p
                   then (case dict_get fs p of Some (TomlText d) \<Rightarrow> d | _ \<Rightarrow> empty_doc)
                   else empty_doc)"
  define T0 where "T0 = get_or (mcp_servers doc0) []"
  define U where "U = fold (\<lambda>(k, s) t. dict_set k (F s) t) C T0"
  define K where "K = filter (\<lambda>e. fst e \<in> set (dict_keys C)) U"
  define doc1 where "doc1 = doc0\<lparr>mcp_servers := Some K\<rparr>"
  define fs1 where "fs1 = dict_set p (TomlText doc1) fs"
  define tb where "tb = (\<lambda>n. format_codex_server ?w (get_or (dict_get C n) undefined))"
  define C1 where "C1 = map (\<lambda>e. (fst e, parse_codex_server (tb (fst e)))) K"

  have w1: "codex_write_config h fs p cfg pe = (True, fs1)"
    using io
    by (simp add: codex_write_config_def Let_def cfg get_or_simps kept_filter
        fs1_def doc1_def K_def U_def T0_def doc0_def F_def)
  have dT0: "distinct (dict_keys T0)"
    using ok
    by (auto simp: T0_def doc0_def table_ok_def empty_doc_def get_or_simps path_exists_def
        split: option.splits content.splits)
  have dU: "distinct (dict_keys U)"
    unfolding U_def by (rule distinct_fold_set [OF dT0])
  have getU: "dict_get U n = (case dict_get C n of Some s \<Rightarrow> Some (F s) | None \<Rightarrow> dict_get T0 n)" for n
    unfolding U_def by (rule dict_get_fold_set [OF dist])
  have keysU: "set (dict_keys U) = set (dict_keys T0) \<union> set (dict_keys C)"
    unfolding U_def by (rule keys_fold_set)
  have dK: "distinct (dict_keys K)"
    using dU by (simp add: K_def dict_keys_def distinct_map_filter)
  have "dict_keys K = filter (\<lambda>k. k \<in> set (dict_keys C)) (dict_keys U)"
    by (simp add: K_def dict_keys_def filter_map comp_def)
  then have keysK: "set (dict_keys K) = set (dict_keys C)"
    using keysU by auto
  have itemK: "snd e = Table (tb (fst e))" if e: "e \<in> set K" for e
  proof -
    from e have eU: "e \<in> set U" and eC: "fst e \<in> set (dict_keys C)"
      by (simp_all add: K_def)
    from eC obtain s where s: "dict_get C (fst e) = Some s"
      using dict_get_in_keys [of C "fst e"] by auto
    from dict_get_member [OF dU eU] getU [of "fst e"] s have "snd e = F s"
      by simp
    with s show ?thesis
      by (simp add: F_def tb_def get_or_simps)
  qed
  have p1: "dict_get fs1 p = Some (TomlText doc1)"
    by (simp add: fs1_def dict_get_dict_set)
  have m1: "get_or (mcp_servers doc1) [] = K"
    by (simp add: doc1_def get_or_simps)
  have read1: "codex_read_config fs1 p = \<lparr> mcpServers = Some C1, other_keys = [] \<rparr>"
    using fold_read_tables [of K tb "[]"] itemK dK
    by (simp add: codex_read_config_def p1 doc1_def get_or_simps C1_def)
  have keysC1: "dict_keys C1 = dict_keys K"
    by (simp add: C1_def dict_keys_def comp_def)
  have dC1: "distinct (dict_keys C1)"
    using dK by (simp add: keysC1)
  have getK: "dict_get K n = map_option F (dict_get C n)" for n
  proof (cases "dict_get C n")
    case None
    then have "n \<notin> set (dict_keys K)"
      by (simp add: keysK dict_get_None_iff)
    then show ?thesis
      by (simp add: None dict_get_None_iff)
  next
    case (Some s)
    then have "n \<in> set (dict_keys K)"
      using dict_get_in_keys [of C n] by (simp add: keysK)
    then obtain e where e: "e \<in> set K" and f: "fst e = n"
      by (auto simp: dict_keys_def)
    from dict_get_member [OF dK e] itemK [OF e] f show ?thesis
      by (simp add: Some tb_def F_def get_or_simps)
  qed
  have getC1: "dict_get C1 n = map_option (\<lambda>s. parse_codex_server (format_codex_server ?w s))
                                 (dict_get C n)" for n
  proof (cases "dict_get C n")
    case None
    then have "n \<notin> set (dict_keys C1)"
      by (simp add: keysC1 keysK dict_get_None_iff)
    then show ?thesis
      by (simp add: None dict_get_None_iff)
  next
    case (Some s)
    then have "n \<in> set (dict_keys K)"
      using dict_get_in_keys [of C n] by (simp add: keysK)
    then obtain e where e: "e \<in> set K" and f: "fst e = n"
      by (auto simp: dict_keys_def)
    have "(n, parse_codex_server (tb n)) \<in> set C1"
      using e f by (force simp: C1_def)
    from dict_get_member [OF dC1 this] show ?thesis
      by (simp add: Some tb_def get_or_simps)
  qed
  have a: "dict_get (snd (codex_write_config h fs p cfg pe)) p = Some (TomlText doc1)"
    by (simp add: w1 p1)
  have b: "\<forall>n. dict_get (get_or (mcp_servers doc1) []) n
                  = map_option (\<lambda>s. Table (format_codex_server (is_windows h) s)) (dict_get C n)"
    using getK by (simp add: m1 F_def)
  have c: "mcpServers (codex_read_config (snd (codex_write_config h fs p cfg pe)) p) = Some C1"
    by (simp add: w1 read1)
  have d: "set (dict_keys C1) = set (dict_keys C)"
    by (simp add: keysC1 keysK)
  show ?thesis
    using a b c d getC1 by blast
qed

section \<open>The change plan and the merge\<close>

text \<open>
  C3. For every source configuration \<open>A\<close> and target configuration \<open>B\<close>, the sets
  \<open>toAdd = names(A) - names(B)\<close>,
  \<open>toUpdate = {n in names(A) \<inter> names(B). A[n] \<noteq> B[n]}\<close>,
  \<open>toRemove = names(B) - names(A)\<close> and the unchanged names are pairwise disjoint, and
  their union is \<open>names(A) \<union> names(B)\<close>.
\<close>

theorem plan_partition:
  "servers_to_add A B = set (dict_keys A) - set (dict_keys B)
   \<and> servers_to_remove A B = set (dict_keys B) - set (dict_keys A)
   \<and> servers_to_update A B =
       {n. n \<in> set (dict_keys A) \<inter> set (dict_keys B) \<and>
           (\<exists>a b. dict_get A n = Some a \<and> dict_get B n = Some b \<and> \<not> server_eq a b)}
   \<and> servers_to_add A B \<inter> servers_to_update A B = {}
   \<and> servers_to_add A B \<inter> servers_to_remove A B = {}
   \<and> servers_to_add A B \<inter> unchanged A B = {}
   \<and> servers_to_update A B \<inter> servers_to_remove A B = {}
   \<and> servers_to_update A B \<inter> unchanged A B = {}
   \<and> servers_to_remove A B \<inter> unchanged A B = {}
   \<and> servers_to_add A B \<union> servers_to_update A B \<union> servers_to_remove A B \<union> unchanged A B
       = set (dict_keys A) \<union> set (dict_keys B)"
proof -
  have both: "\<exists>a b. dict_get A n = Some a \<and> dict_get B n = Some b"
    if "n \<in> set (dict_keys A)" "n \<in> set (dict_keys B)" for n
    using that dict_get_in_keys [of A n] dict_get_in_keys [of B n] by auto
  have upd: "servers_to_update A B =
       {n. n \<in> set (dict_keys A) \<inter> set (dict_keys B) \<and>
           (\<exists>a b. dict_get A n = Some a \<and> dict_get B n = Some b \<and> \<not> server_eq a b)}"
    by (auto simp: servers_to_update_def split: option.splits)
  have unch: "unchanged A B =
       {n. n \<in> set (dict_keys A) \<inter> set (dict_keys B) \<and>
           (\<exists>a b. dict_get A n = Some a \<and> dict_get B n = Some b \<and> server_eq a b)}"
    by (auto simp: unchanged_def split: option.splits)
  have cover: "servers_to_add A B \<union> servers_to_update A B \<union> servers_to_remove A B
                 \<union> unchanged A B = set (dict_keys A) \<union> set (dict_keys B)"
  proof (rule set_eqI)
    fix n
    show "n \<in> servers_to_add A B \<union> servers_to_update A B \<union> servers_to_remove A B
                 \<union> unchanged A B \<longleftrightarrow> n \<in> set (dict_keys A) \<union> set (dict_keys B)"
    proof (cases "n \<in> set (dict_keys A) \<and> n \<in> set (dict_keys B)")
      case True
      with both [of n] obtain a b where "dict_get A n = Some a" "dict_get B n = Some b"
        by blast
      with True show ?thesis
        unfolding upd unch servers_to_add_def servers_to_remove_def by auto
    next
      case False
      then show ?thesis
        unfolding upd unch servers_to_add_def servers_to_remove_def by auto
    qed
  qed
  have d1: "servers_to_add A B \<inter> servers_to_update A B = {}"
    unfolding upd servers_to_add_def by blast
  have d2: "servers_to_add A B \<inter> servers_to_remove A B = {}"
    unfolding servers_to_add_def servers_to_remove_def by blast
  have d3: "servers_to_add A B \<inter> unchanged A B = {}"
    unfolding unch servers_to_add_def by blast
  have d4: "servers_to_update A B \<inter> servers_to_remove A B = {}"
    unfolding upd servers_to_remove_def by blast
  have d5: "servers_to_update A B \<inter> unchanged A B = {}"
    unfolding upd unch by auto
  have d6: "servers_to_remove A B \<inter> unchanged A B = {}"
    unfolding unch servers_to_remove_def by blast
  show ?thesis
    using upd d1 d2 d3 d4 d5 d6 cover
    by (simp only: servers_to_add_def servers_to_remove_def simp_thms)
qed

text \<open>
  The plan of the test \<open>test_sync_by_path_updates_existing\<close>: \<open>server2\<close> is added,
  \<open>server1\<close> is updated, \<open>server3\<close> is to be removed, nothing is unchanged.
\<close>

theorem plan_partition_witness:
  "servers_to_add sample_source sample_target = {''server2''}
   \<and> servers_to_update sample_source sample_target = {''server1''}
   \<and> servers_to_remove sample_source sample_target = {''server3''}
   \<and> unchanged sample_source sample_target = {}
   \<and> servers_to_add sample_source sample_target \<union> servers_to_update sample_source sample_target
       \<union> servers_to_remove sample_source sample_target \<union> unchanged sample_source sample_target
       = set (dict_keys sample_source) \<union> set (dict_keys sample_target)"
proof -
  have a: "servers_to_add sample_source sample_target = {''server2''}"
    by (auto simp: servers_to_add_def sample_source_def sample_target_def)
  have r: "servers_to_remove sample_source sample_target = {''server3''}"
    by (auto simp: servers_to_remove_def sample_source_def sample_target_def)
  have u: "servers_to_update sample_source sample_target = {''server1''}"
    by (simp add: servers_to_update_def sample_source_def sample_target_def server_eq_def
        json_entry_def)
  have n: "unchanged sample_source sample_target = {}"
    by (simp add: unchanged_def sample_source_def sample_target_def server_eq_def
        json_entry_def)
  have c: "servers_to_add sample_source sample_target
             \<union> servers_to_update sample_source sample_target
             \<union> servers_to_remove sample_source sample_target
             \<union> unchanged sample_source sample_target
           = set (dict_keys sample_source) \<union> set (dict_keys sample_target)"
    using plan_partition [of sample_source sample_target] by (elim conjE)
  show ?thesis
    using a u r n c by (intro conjI)
qed

section \<open>Applying a sync\<close>

text \<open>
  C1, as amended. Let \<open>S\<close> and \<open>T\<close> be the source and target configurations a sync reads,
  \<open>S\<close> a dict (its keys are distinct). The merged configuration \<open>merge_servers T S\<close> maps
  every name of \<open>S\<close> to the entry of \<open>S\<close> and every other name to what \<open>T\<close> has for
  it; its names are those of \<open>T\<close> and \<open>S\<close>; every name of the reported set
  \<open>servers_to_remove\<close> is still there with the entry of \<open>T\<close>. When the source is not
  empty and the sync is not a dry run, this merged configuration is what is handed to
  \<open>write_config\<close> for the target; when the write succeeds the result reports the plan,
  whose names to remove are \<open>names(T) - names(S)\<close>. A JSON target then reads back as the
  merged configuration. A TOML target (whose table \<open>mcp_servers\<close> has each key once) then
  holds, under exactly the names of the merged configuration, the table that
  \<open>_format_codex_server\<close> makes of each merged entry, and it reads back with exactly these
  names, each with \<open>_parse_codex_server\<close> of that table: for a steady entry, the command
  of the entry (\<open>npx\<close> when it has none), its arguments with \<open>-y\<close> put first when the
  command is \<open>npx\<close> and lacks it, its \<open>env\<close> and its timeout (60000 when it has none).
  So a name that only the target has is kept in both formats, but in a TOML target its
  entry is the unchanged one only when it has that form already, which is why the claim
  is amended.
\<close>

theorem sync_paths_writes_overlay:
  assumes S: "S = get_or (mcpServers (read_config (files w) source_path
                             (format_used source_path source_format))) []"
    and T: "T = get_or (mcpServers (read_config (files w) target_path
                             (format_used target_path target_format))) []"
    and dist: "distinct (dict_keys S)"
  shows
   "(\<forall>n. dict_get (merge_servers T S) n =
          (case dict_get S n of Some e \<Rightarrow> Some e | None \<Rightarrow> dict_get T n))
    \<and> set (dict_keys (merge_servers T S)) = set (dict_keys T) \<union> set (dict_keys S)
    \<and> (\<forall>n \<in> servers_to_remove S T.
          dict_get (merge_servers T S) n = dict_get T n \<and> dict_get T n \<noteq> None)
    \<and> (S \<noteq> [] \<longrightarrow>
          files (snd (sync_paths h w source_path target_path source_id target_id
                        source_format target_format False))
            = snd (write_config h (files w) target_path
                     \<lparr> mcpServers = Some (merge_servers T S), other_keys = [] \<rparr>
                     (format_used target_path target_format) True))
    \<and> (S \<noteq> [] \<and> \<not> write_fails h \<longrightarrow>
          (\<exists>b. fst (sync_paths h w source_path target_path source_id target_id
                       source_format target_format False)
                 = Synced (path_str source_path) (path_str target_path) b (report S T))
          \<and> set (to_remove (report S T)) = set (dict_keys T) - set (dict_keys S))
    \<and> (S \<noteq> [] \<and> \<not> write_fails h \<and> format_used target_path target_format \<noteq> ''toml'' \<longrightarrow>
          read_config
            (files (snd (sync_paths h w source_path target_path source_id target_id
                           source_format target_format False)))
            target_path (format_used target_path target_format)
            = \<lparr> mcpServers = Some (merge_servers T S), other_keys = [] \<rparr>)
    \<and> (S \<noteq> [] \<and> \<not> write_fails h \<and> format_used target_path target_format = ''toml''
          \<and> table_ok (files w) target_path \<longrightarrow>
          (\<exists>doc R.
             dict_get (files (snd (sync_paths h w source_path target_path source_id target_id
                                     source_format target_format False))) target_path
               = Some (TomlText doc)
           \<and> (\<forall>n. dict_get (get_or (mcp_servers doc) []) n
                    = map_option (\<lambda>e. Table (format_codex_server (is_windows h) e))
                        (dict_get (merge_servers T S) n))
           \<and> mcpServers
               (read_config
                  (files (snd (sync_paths h w source_path target_path source_id target_id
                                 source_format target_format False)))
                  target_path ''toml'') = Some R
           \<and> set (dict_keys R) = set (dict_keys T) \<union> set (dict_keys S)
           \<and> (\<forall>n. dict_get R n
                    = map_option (\<lambda>e. parse_codex_server (format_codex_server (is_windows h) e))
                        (dict_get (merge_servers T S) n))
           \<and> (\<forall>n e. dict_get (merge_servers T S) n = Some e \<and> steady (is_windows h) e \<longrightarrow>
                  dict_get R n =
                    Some \<lparr> command = Some (get_or (command e) ''npx''),
                           args = Some (confirmed_args e),
                           env = Some (get_or (env e) []),
                           timeout_ms = Some (written_timeout e),
                           startup_timeout_ms = None,
                           server_type = (if ''--stdio'' \<in> set (confirmed_args e)
                                          then Some ''stdio'' else None) \<rparr>)))"
proof (intro conjI allI ballI impI)
  fix n
  show "dict_get (merge_servers T S) n =
          (case dict_get S n of Some e \<Rightarrow> Some e | None \<Rightarrow> dict_get T n)"
    by (rule merge_servers_get [OF dist])
next
  show "set (dict_keys (merge_servers T S)) = set (dict_keys T) \<union> set (dict_keys S)"
    by (rule merge_servers_keys)
next
  fix n
  assume "n \<in> servers_to_remove S T"
  then have inT: "n \<in> set (dict_keys T)" and notS: "n \<notin> set (dict_keys S)"
    by (simp_all add: servers_to_remove_def)
  from notS have "dict_get S n = None"
    by (simp add: dict_get_None_iff)
  then show "dict_get (merge_servers T S) n = dict_get T n"
    by (simp add: merge_servers_get [OF dist])
  from inT show "dict_get T n \<noteq> None"
    using dict_get_in_keys [of T n] by blast
next
  assume "S \<noteq> []"
  then show "files (snd (sync_paths h w source_path target_path source_id target_id
                        source_format target_format False))
            = snd (write_config h (files w) target_path
                     \<lparr> mcpServers = Some (merge_servers T S), other_keys = [] \<rparr>
                     (format_used target_path target_format) True)"
    by (simp add: sync_paths_eq Let_def S [symmetric] T [symmetric])
next
  assume "S \<noteq> [] \<and> \<not> write_fails h"
  then show "\<exists>b. fst (sync_paths h w source_path target_path source_id target_id
                       source_format target_format False)
                 = Synced (path_str source_path) (path_str target_path) b (report S T)"
    by (simp add: sync_paths_eq Let_def S [symmetric] T [symmetric] write_config_ok)
next
  show "set (to_remove (report S T)) = set (dict_keys T) - set (dict_keys S)"
    by (simp add: report_lists servers_to_remove_def)
next
  assume h: "S \<noteq> [] \<and> \<not> write_fails h \<and> format_used target_path target_format \<noteq> ''toml''"
  then show "read_config
            (files (snd (sync_paths h w source_path target_path source_id target_id
                           source_format target_format False)))
            target_path (format_used target_path target_format)
            = \<lparr> mcpServers = Some (merge_servers T S), other_keys = [] \<rparr>"
    by (simp add: sync_paths_eq Let_def S [symmetric] T [symmetric] write_config_ok
        read_after_json_write)
next
  assume a: "S \<noteq> [] \<and> \<not> write_fails h \<and> format_used target_path target_format = ''toml''
          \<and> table_ok (files w) target_path"
  define cfg where "cfg = \<lparr> mcpServers = Some (merge_servers T S), other_keys = [] \<rparr>"
  define fs where "fs = snd (codex_write_config h (files w) target_path cfg True)"
  from a have ne: "S \<noteq> []" and io: "\<not> write_fails h"
    and tf: "format_used target_path target_format = ''toml''"
    and ok: "table_ok (files w) target_path"
    by simp_all
  have Tc: "T = get_or (mcpServers (codex_read_config (files w) target_path)) []"
    using T by (simp add: tf read_config_def)
  have dT: "distinct (dict_keys T)"
    unfolding Tc by (rule distinct_codex_read)
  have dM: "distinct (dict_keys (merge_servers T S))"
    by (rule distinct_merge_servers [OF dT])
  have after: "files (snd (sync_paths h w source_path target_path source_id target_id
                             source_format target_format False)) = fs"
  proof -
    have "files (snd (sync_paths h w source_path target_path source_id target_id
                        source_format target_format False))
            = snd (write_config h (files w) target_path cfg
                     (format_used target_path target_format) True)"
      using ne by (simp add: sync_paths_eq Let_def S [symmetric] T [symmetric] cfg_def)
    then show ?thesis
      by (simp add: tf write_config_def fs_def)
  qed
  have c: "mcpServers cfg = Some (merge_servers T S)"
    by (simp add: cfg_def)
  from codex_write_read [OF io c dM ok, of True]
  obtain doc R where d1: "dict_get fs target_path = Some (TomlText doc)"
    and d2: "\<forall>n. dict_get (get_or (mcp_servers doc) []) n
                  = map_option (\<lambda>s. Table (format_codex_server (is_windows h) s))
                      (dict_get (merge_servers T S) n)"
    and r1: "mcpServers (codex_read_config fs target_path) = Some R"
    and r2: "set (dict_keys R) = set (dict_keys (merge_servers T S))"
    and r3: "\<forall>n. dict_get R n
                  = map_option (\<lambda>s. parse_codex_server (format_codex_server (is_windows h) s))
                      (dict_get (merge_servers T S) n)"
    unfolding fs_def by blast
  have r1': "mcpServers (read_config fs target_path ''toml'') = Some R"
    using r1 by (simp add: read_config_def)
  have r2': "set (dict_keys R) = set (dict_keys T) \<union> set (dict_keys S)"
    using r2 by (simp add: merge_servers_keys)
  have r4: "\<forall>n e. dict_get (merge_servers T S) n = Some e \<and> steady (is_windows h) e \<longrightarrow>
                  dict_get R n =
                    Some \<lparr> command = Some (get_or (command e) ''npx''),
                           args = Some (confirmed_args e),
                           env = Some (get_or (env e) []),
                           timeout_ms = Some (written_timeout e),
                           startup_timeout_ms = None,
                           server_type = (if ''--stdio'' \<in> set (confirmed_args e)
                                          then Some ''stdio'' else None) \<rparr>"
  proof (intro allI impI)
    fix n e
    assume e: "dict_get (merge_servers T S) n = Some e \<and> steady (is_windows h) e"
    then have "dict_get R n = Some (parse_codex_server (format_codex_server (is_windows h) e))"
      using r3 by simp
    with e show "dict_get R n =
                    Some \<lparr> command = Some (get_or (command e) ''npx''),
                           args = Some (confirmed_args e),
                           env = Some (get_or (env e) []),
                           timeout_ms = Some (written_timeout e),
                           startup_timeout_ms = None,
                           server_type = (if ''--stdio'' \<in> set (confirmed_args e)
                                          then Some ''stdio'' else None) \<rparr>"
      by (simp only: parse_format)
  qed
  show "\<exists>doc R.
             dict_get (files (snd (sync_paths h w source_path target_path source_id target_id
                                     source_format target_format False))) target_path
               = Some (TomlText doc)
           \<and> (\<forall>n. dict_get (get_or (mcp_servers doc) []) n
                    = map_option (\<lambda>e. Table (format_codex_server (is_windows h) e))
                        (dict_get (merge_servers T S) n))
           \<and> mcpServers
               (read_config
                  (files (snd (sync_paths h w source_path target_path source_id target_id
                                 source_format target_format False)))
                  target_path ''toml'') = Some R
           \<and> set (dict_keys R) = set (dict_keys T) \<union> set (dict_keys S)
           \<and> (\<forall>n. dict_get R n
                    = map_option (\<lambda>e. parse_codex_server (format_codex_server (is_windows h) e))
                        (dict_get (merge_servers T S) n))
           \<and> (\<forall>n e. dict_get (merge_servers T S) n = Some e \<and> steady (is_windows h) e \<longrightarrow>
                  dict_get R n =
                    Some \<lparr> command = Some (get_or (command e) ''npx''),
                           args = Some (confirmed_args e),
                           env = Some (get_or (env e) []),
                           timeout_ms = Some (written_timeout e),
                           startup_timeout_ms = None,
                           server_type = (if ''--stdio'' \<in> set (confirmed_args e)
                                          then Some ''stdio'' else None) \<rparr>)"
    unfolding after
    using d1 d2 r1' r2' r3 r4 by (intro exI [of _ doc] exI [of _ R] conjI)
qed

text \<open>
  The sync of the two-server source into the JSON target with \<open>server1\<close> and \<open>server3\<close>:
  \<open>server3\<close> is reported as removed and is still in the target afterwards. And the sync
  of the same source into the Codex target with the table \<open>keep\<close>: the target then has
  the three names, and \<open>server2\<close> reads back with the timeout the write gave it.
\<close>

theorem sync_paths_writes_overlay_witness:
  "read_config
     (files (snd (sync_paths linux_host sample_world [''/'', ''tmp'', ''mcp.json'']
                    [''/'', ''tmp'', ''target.json''] ''src'' ''tgt'' None None False)))
     [''/'', ''tmp'', ''target.json''] ''json''
     = \<lparr> mcpServers = Some
           [(''server1'', json_entry ''npx'' [''-y'', ''pkg1'']),
            (''server3'', json_entry ''keep'' []),
            (''server2'', json_entry ''python'' [''script.py''])],
         other_keys = [] \<rparr>
   \<and> set (to_remove (report sample_source sample_target)) = {''server3''}
   \<and> dict_get (merge_servers sample_target sample_source) ''server3''
       = Some (json_entry ''keep'' [])
   \<and> set (dict_keys (get_or (mcpServers (read_config
         (files (snd (sync_paths linux_host sample_toml_world [''/'', ''tmp'', ''mcp.json'']
                        sample_toml_target ''src'' ''tgt'' None None False)))
         sample_toml_target ''toml'')) [])) = {''keep'', ''server1'', ''server2''}
   \<and> dict_get (get_or (mcpServers (read_config
         (files (snd (sync_paths linux_host sample_toml_world [''/'', ''tmp'', ''mcp.json'']
                        sample_toml_target ''src'' ''tgt'' None None False)))
         sample_toml_target ''toml'')) []) ''server2''
       = Some \<lparr> command = Some ''python'', args = Some [''script.py''], env = Some [],
                 timeout_ms = Some 60000, startup_timeout_ms = None, server_type = None \<rparr>"
proof -
  have d: "distinct (dict_keys sample_source)"
    by (simp add: sample_source_def)
  have f: "format_used [''/'', ''tmp'', ''target.json''] None = ''json''"
    by (simp add: format_used_def sample_paths)
  have h: "\<not> write_fails linux_host"
    by (simp add: linux_host_def)
  have lin: "is_windows linux_host = False"
    by (simp add: linux_host_def)
  have imp: "sample_source \<noteq> [] \<and> \<not> write_fails linux_host \<and>
       format_used [''/'', ''tmp'', ''target.json''] None \<noteq> ''toml'' \<longrightarrow>
     read_config
       (files (snd (sync_paths linux_host sample_world [''/'', ''tmp'', ''mcp.json'']
                      [''/'', ''tmp'', ''target.json''] ''src'' ''tgt'' None None False)))
       [''/'', ''tmp'', ''target.json''] (format_used [''/'', ''tmp'', ''target.json''] None)
     = \<lparr> mcpServers = Some (merge_servers sample_target sample_source), other_keys = [] \<rparr>"
    using sync_paths_writes_overlay [OF sample_reads(1) [symmetric] sample_reads(2) [symmetric] d,
            of linux_host "''src''" "''tgt''"]
    by (elim conjE)
  have a: "read_config
     (files (snd (sync_paths linux_host sample_world [''/'', ''tmp'', ''mcp.json'']
                    [''/'', ''tmp'', ''target.json''] ''src'' ''tgt'' None None False)))
     [''/'', ''tmp'', ''target.json''] ''json''
     = \<lparr> mcpServers = Some (merge_servers sample_target sample_source), other_keys = [] \<rparr>"
    using imp sample_source_ne h by (simp add: f)
  define T where "T = [(''keep'', \<lparr> command = Some ''npx'', args = Some [''pkg''], env = Some [],
                      timeout_ms = None, startup_timeout_ms = None, server_type = None \<rparr>)]"
  define fs where "fs = files (snd (sync_paths linux_host sample_toml_world
                            [''/'', ''tmp'', ''mcp.json''] sample_toml_target
                            ''src'' ''tgt'' None None False))"
  have Tr: "T = get_or (mcpServers (read_config (files sample_toml_world) sample_toml_target
                         (format_used sample_toml_target None))) []"
    by (simp only: sample_toml_reads(3) T_def)
  have pre: "sample_source \<noteq> [] \<and> \<not> write_fails linux_host
       \<and> format_used sample_toml_target None = ''toml''
       \<and> table_ok (files sample_toml_world) sample_toml_target"
    using sample_source_ne h sample_toml_reads(1,4) by (intro conjI)
  have "sample_source \<noteq> [] \<and> \<not> write_fails linux_host
       \<and> format_used sample_toml_target None = ''toml''
       \<and> table_ok (files sample_toml_world) sample_toml_target \<longrightarrow>
     (\<exists>doc R. dict_get fs sample_toml_target = Some (TomlText doc)
        \<and> (\<forall>n. dict_get (get_or (mcp_servers doc) []) n
                 = map_option (\<lambda>e. Table (format_codex_server (is_windows linux_host) e))
                     (dict_get (merge_servers T sample_source) n))
        \<and> mcpServers (read_config fs sample_toml_target ''toml'') = Some R
        \<and> set (dict_keys R) = set (dict_keys T) \<union> set (dict_keys sample_source)
        \<and> (\<forall>n. dict_get R n
                 = map_option (\<lambda>e. parse_codex_server (format_codex_server (is_windows linux_host) e))
                     (dict_get (merge_servers T sample_source) n))
        \<and> (\<forall>n e. dict_get (merge_servers T sample_source) n = Some e
                  \<and> steady (is_windows linux_host) e \<longrightarrow>
               dict_get R n =
                 Some \<lparr> command = Some (get_or (command e) ''npx''),
                        args = Some (confirmed_args e),
                        env = Some (get_or (env e) []),
                        timeout_ms = Some (written_timeout e),
                        startup_timeout_ms = None,
                        server_type = (if ''--stdio'' \<in> set (confirmed_args e)
                                       then Some ''stdio'' else None) \<rparr>))"
    unfolding fs_def
    using sync_paths_writes_overlay [OF sample_toml_reads(2) [symmetric] Tr d,
            of linux_host "''src''" "''tgt''"]
    by (elim conjE)
  with pre obtain R where R: "mcpServers (read_config fs sample_toml_target ''toml'') = Some R"
    and keys: "set (dict_keys R) = set (dict_keys T) \<union> set (dict_keys sample_source)"
    and st: "\<forall>n e. dict_get (merge_servers T sample_source) n = Some e
                  \<and> steady (is_windows linux_host) e \<longrightarrow>
               dict_get R n =
                 Some \<lparr> command = Some (get_or (command e) ''npx''),
                        args = Some (confirmed_args e),
                        env = Some (get_or (env e) []),
                        timeout_ms = Some (written_timeout e),
                        startup_timeout_ms = None,
                        server_type = (if ''--stdio'' \<in> set (confirmed_args e)
                                       then Some ''stdio'' else None) \<rparr>"
    by blast
  have m: "dict_get (merge_servers T sample_source) ''server2''
             = Some (json_entry ''python'' [''script.py''])"
    by (simp add: merge_servers_def dict_update_def T_def sample_source_def)
  have s2: "steady False (json_entry ''python'' [''script.py''])"
    by code_simp
  have e2: "dict_get R ''server2''
       = Some \<lparr> command = Some ''python'', args = Some [''script.py''], env = Some [],
                 timeout_ms = Some 60000, startup_timeout_ms = None, server_type = None \<rparr>"
    using st [rule_format, of "''server2''" "json_entry ''python'' [''script.py'']"] m s2
    by (simp add: lin json_entry_def confirmed_args_def written_timeout_def py_or_def get_or_simps)
  have k2: "set (dict_keys R) = {''keep'', ''server1'', ''server2''}"
    using keys by (auto simp add: T_def sample_source_def)
  have g: "get_or (mcpServers (read_config fs sample_toml_target ''toml'')) [] = R"
    by (simp add: R get_or_simps)
  show ?thesis
    unfolding fs_def [symmetric] g
    using e2 k2 by (simp add: a sample_merge sample_report)
qed

text \<open>
  The sync into the Codex target whose only table is
  \<open>keep = {command = "npx", args = ["pkg"]}\<close>: \<open>keep\<close> is not a name of the source, and
  after the sync the target reads \<open>keep\<close> back with the arguments \<open>["-y", "pkg"]\<close> and
  the timeout 60000, not with the entry the target had. The claim as it was stated, that
  a name only in the target keeps its unchanged entry, does not hold for a TOML target.
\<close>

theorem sync_toml_target_entry_counterexample:
  "dict_get (get_or (mcpServers (read_config (files sample_toml_world) sample_toml_target
                                   ''toml'')) []) ''keep''
     = Some \<lparr> command = Some ''npx'', args = Some [''pkg''], env = Some [],
               timeout_ms = None, startup_timeout_ms = None, server_type = None \<rparr>
   \<and> ''keep'' \<notin> set (dict_keys sample_source)
   \<and> dict_get (get_or (mcpServers (read_config
         (files (snd (sync_by_path linux_host sample_toml_world [''/'', ''tmp'', ''mcp.json'']
                        sample_toml_target None None False)))
         sample_toml_target ''toml'')) []) ''keep''
     = Some \<lparr> command = Some ''npx'', args = Some [''-y'', ''pkg''], env = Some [],
               timeout_ms = Some 60000, startup_timeout_ms = None, server_type = None \<rparr>"
  by code_simp

text \<open>
  C4. When the source configuration that a sync reads has no server entry, the sync
  returns a failure whose message says that no MCP servers were found in the source, and
  the world after the call is the world before it: nothing is written and no backup is
  made. This holds for \<open>_sync_paths\<close> and, when the source file exists, for
  \<open>sync_by_path\<close>.
\<close>

theorem sync_paths_no_servers:
  "get_or (mcpServers (read_config (files w) source_path
                         (format_used source_path source_format))) [] = [] \<Longrightarrow>
   sync_paths h w source_path target_path source_id target_id source_format target_format dry_run
     = (Failure (''No MCP servers found in source: '' @ path_str source_path), w)
   \<and> (path_exists (files w) source_path \<longrightarrow>
        sync_by_path h w source_path target_path source_format target_format dry_run
          = (Failure (''No MCP servers found in source: '' @ path_str source_path), w))"
  by (simp add: sync_paths_eq sync_by_path_eq format_used_Some)

text \<open>The test \<open>test_sync_by_path_no_servers\<close>: the source is \<open>{"mcpServers": {}}\<close>.\<close>

theorem sync_paths_no_servers_witness:
  "sync_paths linux_host sample_world [''/'', ''tmp'', ''empty.json'']
       [''/'', ''tmp'', ''target.json''] ''src'' ''tgt'' None None False
     = (Failure ''No MCP servers found in source: /tmp/empty.json'', sample_world)
   \<and> sync_by_path linux_host sample_world [''/'', ''tmp'', ''empty.json'']
       [''/'', ''tmp'', ''target.json''] None None False
     = (Failure ''No MCP servers found in source: /tmp/empty.json'', sample_world)"
proof -
  have e: "get_or (mcpServers (read_config (files sample_world) [''/'', ''tmp'', ''empty.json'']
             (format_used [''/'', ''tmp'', ''empty.json''] None))) [] = []"
    by (simp add: sample_world_def read_config_def format_used_def sample_paths get_or_def)
  have x: "path_exists (files sample_world) [''/'', ''tmp'', ''empty.json'']"
    by (simp add: sample_world_def path_exists_def)
  show ?thesis
    using sync_paths_no_servers [OF e, of linux_host "[''/'', ''tmp'', ''target.json'']"
            "''src''" "''tgt''" None False] x
    by (simp add: sample_paths)
qed

text \<open>
  C6, as amended. A sync with \<open>dry_run\<close> set leaves the world as it was: no merge is
  written and no backup is made. When the source has at least one server, the result
  of \<open>_sync_paths\<close> and of \<open>sync_by_path\<close> is the preview with the sorted names to add,
  to update and to remove and the total number of changes. (When the source has no
  server the result is the failure of C4 and carries no plan, which is why the claim is
  amended.)
\<close>

theorem sync_paths_dry_run:
  "S = get_or (mcpServers (read_config (files w) source_path
                             (format_used source_path source_format))) [] \<Longrightarrow>
   T = get_or (mcpServers (read_config (files w) target_path
                             (format_used target_path target_format))) [] \<Longrightarrow>
   snd (sync_paths h w source_path target_path source_id target_id source_format target_format True)
     = w
   \<and> snd (sync_by_path h w source_path target_path source_format target_format True) = w
   \<and> (S \<noteq> [] \<longrightarrow>
        fst (sync_paths h w source_path target_path source_id target_id
               source_format target_format True)
          = DryRun (path_str source_path) (path_str target_path) (report S T)
        \<and> fst (sync_by_path h w source_path target_path source_format target_format True)
          = DryRun (path_str source_path) (path_str target_path) (report S T)
        \<and> set (to_add (report S T)) = servers_to_add S T
        \<and> set (to_update (report S T)) = servers_to_update S T
        \<and> set (to_remove (report S T)) = servers_to_remove S T
        \<and> total_changes (report S T) =
            card (servers_to_add S T) + card (servers_to_update S T)
              + card (servers_to_remove S T))"
  using read_config_missing [of "files w" source_path "format_used source_path source_format"]
  by (simp add: sync_paths_eq sync_by_path_eq format_used_Some Let_def report_lists)
    (auto simp add: report_def)

text \<open>The dry run of the test \<open>test_sync_by_path_updates_existing\<close>.\<close>

theorem sync_paths_dry_run_witness:
  "sync_paths linux_host sample_world [''/'', ''tmp'', ''mcp.json'']
       [''/'', ''tmp'', ''target.json''] ''src'' ''tgt'' None None True
     = (DryRun ''/tmp/mcp.json'' ''/tmp/target.json''
          \<lparr> to_add = [''server2''], to_update = [''server1''], to_remove = [''server3''],
            total_changes = 3 \<rparr>,
        sample_world)"
  using sync_paths_dry_run [OF sample_reads(1) [symmetric] sample_reads(2) [symmetric],
          of linux_host "''src''" "''tgt''"]
        sample_source_ne
  by (simp add: prod_eq_iff sample_report sample_paths)

text \<open>
  A dry run whose source has no server returns a failure, not a plan: the claim as it
  was stated, that every dry run returns the plan, does not hold.
\<close>

theorem sync_dry_run_no_plan_counterexample:
  "sync_by_path linux_host sample_world [''/'', ''tmp'', ''empty.json'']
       [''/'', ''tmp'', ''target.json''] None None True
     = (Failure ''No MCP servers found in source: /tmp/empty.json'', sample_world)"
  by (simp add: sync_by_path_eq sync_paths_eq format_used_Some sample_world_def read_config_def
      format_used_def sample_paths get_or_def path_exists_def)

text \<open>
  C9. \<open>sync_by_path\<close> called with a format argument left out behaves as the call with
  the format \<open>format_used path None\<close> given, which is \<open>toml\<close> exactly when the suffix
  of the path is \<open>.toml\<close> and \<open>json\<close> in every other case; a format that is given is
  the format used, whatever the path. The source is read in the format used for the
  source, and the target is read and written in the format used for the target.
\<close>

theorem sync_by_path_format:
  "sync_by_path h w source_path target_path source_format target_format dry_run
     = sync_by_path h w source_path target_path
         (Some (format_used source_path source_format))
         (Some (format_used target_path target_format)) dry_run
   \<and> sync_by_path h w source_path target_path source_format target_format dry_run
     = (if \<not> path_exists (files w) source_path
        then (Failure (''Source configuration not found: '' @ path_str source_path), w)
        else
          let S = get_or (mcpServers (read_config (files w) source_path
                                        (format_used source_path source_format))) [];
              T = get_or (mcpServers (read_config (files w) target_path
                                        (format_used target_path target_format))) []
          in if S = [] then
               (Failure (''No MCP servers found in source: '' @ path_str source_path), w)
             else if dry_run then
               (DryRun (path_str source_path) (path_str target_path) (report S T), w)
             else
               let bw = (if path_exists (files w) target_path
                         then backup_before_sync h w target_path else (None, w));
                   wr = write_config h (files w) target_path
                          \<lparr> mcpServers = Some (merge_servers T S), other_keys = [] \<rparr>
                          (format_used target_path target_format) True
               in if \<not> fst wr then
                    (Failure (''Failed to write target configuration: '' @ path_str target_path),
                     (snd bw)\<lparr>files := snd wr\<rparr>)
                  else
                    (Synced (path_str source_path) (path_str target_path)
                       (map_option path_str (fst bw)) (report S T),
                     (snd bw)\<lparr>files := snd wr\<rparr>))
   \<and> (format_used p None = ''toml'' \<longleftrightarrow> path_suffix p = ''.toml'')
   \<and> (format_used p None = ''json'' \<longleftrightarrow> path_suffix p \<noteq> ''.toml'')
   \<and> format_used p (Some f) = f"
proof (intro conjI)
  show "sync_by_path h w source_path target_path source_format target_format dry_run
     = sync_by_path h w source_path target_path
         (Some (format_used source_path source_format))
         (Some (format_used target_path target_format)) dry_run"
    by (simp add: sync_by_path_eq format_used_Some)
  show "format_used p None = ''toml'' \<longleftrightarrow> path_suffix p = ''.toml''"
    by (simp add: format_used_def)
  show "format_used p None = ''json'' \<longleftrightarrow> path_suffix p \<noteq> ''.toml''"
    by (simp add: format_used_def)
  show "format_used p (Some f) = f"
    by (simp add: format_used_def)
qed (simp add: sync_by_path_eq sync_paths_eq format_used_Some Let_def)

text \<open>
  The suffixes \<open>.TOML\<close> and \<open>.yaml\<close>, a name without a suffix and the name \<open>.toml\<close>
  (whose \<open>pathlib\<close> suffix is empty) all give \<open>json\<close>.
\<close>

theorem sync_by_path_format_witness:
  "format_used [''/'', ''tmp'', ''config.toml''] None = ''toml''
   \<and> format_used [''/'', ''tmp'', ''config.TOML''] None = ''json''
   \<and> format_used [''/'', ''tmp'', ''config''] None = ''json''
   \<and> format_used [''/'', ''tmp'', ''config.yaml''] None = ''json''
   \<and> format_used [''/'', ''tmp'', ''.toml''] None = ''json''
   \<and> format_used [''/'', ''tmp'', ''config.json''] (Some ''toml'') = ''toml''
   \<and> sync_by_path linux_host sample_world [''/'', ''tmp'', ''mcp.json'']
        [''/'', ''tmp'', ''target.json''] None None True
      = sync_by_path linux_host sample_world [''/'', ''tmp'', ''mcp.json'']
        [''/'', ''tmp'', ''target.json''] (Some ''json'') (Some ''json'') True"
proof -
  have s: "path_suffix [''/'', ''tmp'', ''config.toml''] = ''.toml''"
      "path_suffix [''/'', ''tmp'', ''config.TOML''] = ''.TOML''"
      "path_suffix [''/'', ''tmp'', ''config''] = ''''"
      "path_suffix [''/'', ''tmp'', ''config.yaml''] = ''.yaml''"
      "path_suffix [''/'', ''tmp'', ''.toml''] = ''''"
    by (simp_all add: path_suffix_def path_name_def rfind_dot_def)
  show ?thesis
    using sync_by_path_format [of linux_host sample_world "[''/'', ''tmp'', ''mcp.json'']"
            "[''/'', ''tmp'', ''target.json'']" None None True "[''/'', ''tmp'', ''config.toml'']"
            "''toml''"]
    by (simp add: format_used_def s sample_paths)
qed

section \<open>Cleaning up snapshots\<close>

lemma timestamps_collect:
  "map timestamp (collect_backups root xs) = map fst (filter listed_dir xs)"
  by (induction root xs rule: collect_backups.induct) (auto simp: listed_dir_def Let_def)

lemma collect_filter:
  "collect_backups root (filter (\<lambda>e. P (fst e)) xs)
     = filter (\<lambda>b. P (timestamp b)) (collect_backups root xs)"
  by (induction root xs rule: collect_backups.induct) (auto simp: Let_def)

lemma sorted_reverse_filter:
  "sorted_reverse (filter P st) = filter P (sorted_reverse st)"
proof -
  have "filter P (rev (sort_key fst (rev st))) = rev (filter P (sort_key fst (rev st)))"
    by (simp add: rev_filter)
  also have "\<dots> = rev (sort_key fst (filter P (rev st)))"
    by (simp add: filter_sort)
  also have "\<dots> = rev (sort_key fst (rev (filter P st)))"
    by (simp add: rev_filter)
  finally show ?thesis
    by (simp add: sorted_reverse_def)
qed

lemma list_backups_filter:
  "list_backups root (filter (\<lambda>e. P (fst e)) st)
     = filter (\<lambda>b. P (timestamp b)) (list_backups root st)"
  by (simp add: list_backups_def sorted_reverse_filter collect_filter)

lemma distinct_sorted_reverse:
  "distinct (map fst st) \<Longrightarrow> distinct (map fst (sorted_reverse st))"
  by (simp add: sorted_reverse_def distinct_map)

lemma distinct_list_backups:
  "distinct (dict_keys st) \<Longrightarrow> distinct (map timestamp (list_backups root st))"
  by (simp add: list_backups_def timestamps_collect dict_keys_def distinct_sorted_reverse
      distinct_map_filter)

lemma sorted_list_backups:
  "sorted (rev (map timestamp (list_backups root st)))"
proof -
  have "rev (map fst (filter listed_dir (sorted_reverse st)))
          = map fst (filter listed_dir (sort_key fst (rev st)))"
    by (simp add: sorted_reverse_def rev_map rev_filter)
  moreover have "sorted (map fst (filter listed_dir (sort_key fst (rev st))))"
    by (rule sorted_filter) (rule sorted_sort_key)
  ultimately show ?thesis
    by (simp add: list_backups_def timestamps_collect)
qed

lemma filter_keep_take:
  "distinct (map f xs) \<Longrightarrow>
   filter (\<lambda>x. f x \<notin> set (map f (drop k xs))) xs = take k xs"
proof -
  assume d: "distinct (map f xs)"
  have split: "xs = take k xs @ drop k xs"
    by simp
  from d have d': "distinct (map f (take k xs) @ map f (drop k xs))"
    by (metis split map_append)
  then have disj: "set (map f (take k xs)) \<inter> set (map f (drop k xs)) = {}"
    by simp
  have a: "filter (\<lambda>x. f x \<notin> set (map f (drop k xs))) (take k xs) = take k xs"
    using disj by (intro filter_True) auto
  have b: "filter (\<lambda>x. f x \<notin> set (map f (drop k xs))) (drop k xs) = []"
    by (intro filter_False) auto
  have "filter (\<lambda>x. f x \<notin> set (map f (drop k xs))) (take k xs @ drop k xs) = take k xs"
    by (simp only: filter_append a b append_Nil2)
  then show ?thesis
    by simp
qed

lemma fold_rmtree:
  "\<forall>b \<in> set bs. \<not> rmtree_fails (timestamp b) \<Longrightarrow>
   fold (\<lambda>b (removed, s).
           if rmtree_fails (timestamp b) then (removed, s)
           else (removed + 1, dict_del (timestamp b) s)) bs (r, st)
     = (r + int (length bs), filter (\<lambda>e. fst e \<notin> set (map timestamp bs)) st)"
proof (induction bs arbitrary: r st)
  case Nil
  then show ?case by simp
next
  case (Cons b bs)
  have flt: "filter (\<lambda>e. fst e \<notin> timestamp ` set bs) (dict_del (timestamp b) st)
          = filter (\<lambda>e. fst e \<noteq> timestamp b \<and> fst e \<notin> timestamp ` set bs) st"
    by (induction st) (auto simp: dict_del_def)
  from Cons.prems have nb: "\<not> rmtree_fails (timestamp b)"
    and rest: "\<forall>b \<in> set bs. \<not> rmtree_fails (timestamp b)"
    by simp_all
  show ?case
    using Cons.IH [OF rest, of "r + 1" "dict_del (timestamp b) st"] nb
    by (simp add: flt)
qed

text \<open>
  C7. For a backup root whose entries have distinct names and whose snapshots can be
  removed, and for \<open>keep_count \<ge> 0\<close>: \<open>cleanup_old_backups\<close> returns
  \<open>max (priorCount - keep_count) 0\<close>, where \<open>priorCount\<close> is the number of snapshots
  listed before; the snapshots listed afterwards are the first \<open>keep_count\<close> of those
  listed before, \<open>min keep_count priorCount\<close> in number; the listing is in descending
  order of the identifiers, so these are the most recent; and when
  \<open>priorCount \<le> keep_count\<close> the call returns 0 and leaves the store as it is.
\<close>

theorem cleanup_old_backups_keeps_newest:
  assumes keep: "0 \<le> keep_count"
    and dist: "distinct (dict_keys st)"
    and ok: "\<forall>name \<in> set (dict_keys st). \<not> rmtree_fails name"
  shows "fst (cleanup_old_backups rmtree_fails root st keep_count)
           = max (int (length (list_backups root st)) - keep_count) 0
    \<and> list_backups root (snd (cleanup_old_backups rmtree_fails root st keep_count))
           = take (nat keep_count) (list_backups root st)
    \<and> length (list_backups root (snd (cleanup_old_backups rmtree_fails root st keep_count)))
           = min (nat keep_count) (length (list_backups root st))
    \<and> sorted (rev (map timestamp (list_backups root st)))
    \<and> snd (cleanup_old_backups rmtree_fails root st keep_count)
           = filter (\<lambda>e. fst e \<notin> set (map timestamp
                                          (drop (nat keep_count) (list_backups root st)))) st
    \<and> (int (length (list_backups root st)) \<le> keep_count \<longrightarrow>
          cleanup_old_backups rmtree_fails root st keep_count = (0, st))"
proof -
  let ?L = "list_backups root st"
  let ?k = "nat keep_count"
  have noop: "int (length ?L) \<le> keep_count \<Longrightarrow>
          cleanup_old_backups rmtree_fails root st keep_count = (0, st)"
    by (simp add: cleanup_old_backups_def Let_def)
  have sl: "slice_from keep_count ?L = drop ?k ?L"
    using keep by (simp add: slice_from_def)
  have names: "set (map timestamp ?L) \<subseteq> set (dict_keys st)"
    by (auto simp: list_backups_def timestamps_collect sorted_reverse_def dict_keys_def)
  have okd: "\<forall>b \<in> set (drop ?k ?L). \<not> rmtree_fails (timestamp b)"
  proof
    fix b assume "b \<in> set (drop ?k ?L)"
    then have "b \<in> set ?L" by (rule in_set_dropD)
    then have "timestamp b \<in> set (dict_keys st)" using names by auto
    with ok show "\<not> rmtree_fails (timestamp b)" by blast
  qed
  define st' where "st' = filter (\<lambda>e. fst e \<notin> set (map timestamp (drop ?k ?L))) st"
  have run: "\<not> int (length ?L) \<le> keep_count \<Longrightarrow>
          cleanup_old_backups rmtree_fails root st keep_count = (int (length (drop ?k ?L)), st')"
    using fold_rmtree [OF okd, of 0 st]
    by (simp add: cleanup_old_backups_def Let_def sl st'_def)
  have "list_backups root st'
          = filter (\<lambda>b. timestamp b \<notin> set (map timestamp (drop ?k ?L))) ?L"
    unfolding st'_def
    by (rule list_backups_filter [of root "\<lambda>n. n \<notin> set (map timestamp (drop ?k ?L))" st])
  also have "\<dots> = take ?k ?L"
    by (rule filter_keep_take [OF distinct_list_backups [OF dist, of root], of ?k])
  finally have kept: "list_backups root st' = take ?k ?L" .
  have store: "snd (cleanup_old_backups rmtree_fails root st keep_count) = st'"
  proof (cases "int (length ?L) \<le> keep_count")
    case True
    then have "drop ?k ?L = []" by simp
    then have "st' = st" by (simp add: st'_def)
    with True show ?thesis by (simp add: noop)
  next
    case False
    then show ?thesis by (simp add: run)
  qed
  have c1: "fst (cleanup_old_backups rmtree_fails root st keep_count)
           = max (int (length ?L) - keep_count) 0"
  proof (cases "int (length ?L) \<le> keep_count")
    case True
    then show ?thesis by (simp add: noop)
  next
    case False
    with keep show ?thesis by (simp add: run)
  qed
  have c2: "list_backups root (snd (cleanup_old_backups rmtree_fails root st keep_count))
           = take ?k ?L"
    by (simp only: store kept)
  have c3: "length (list_backups root (snd (cleanup_old_backups rmtree_fails root st keep_count)))
           = min ?k (length ?L)"
    by (simp only: c2 length_take min.commute)
  have c5: "snd (cleanup_old_backups rmtree_fails root st keep_count)
           = filter (\<lambda>e. fst e \<notin> set (map timestamp (drop ?k ?L))) st"
    by (simp only: store st'_def)
  have c6: "int (length ?L) \<le> keep_count \<longrightarrow>
          cleanup_old_backups rmtree_fails root st keep_count = (0, st)"
    using noop by blast
  show ?thesis
    using c1 c2 c3 sorted_list_backups [of root st] c5 c6 by (intro conjI)
qed

text \<open>
  Five snapshots, one of them without files, and a plain file in the backup root: four
  snapshots are listed, keeping two removes the two oldest of them.
\<close>

lemma sample_listing:
  "map timestamp (list_backups root sample_store) =
     [''20240128_123456_000005'', ''20240128_123456_000004'',
      ''20240128_123456_000003'', ''20240128_123456_000001'']"
  by (simp add: list_backups_def sorted_reverse_def sample_store_def Let_def)

theorem cleanup_old_backups_keeps_newest_witness:
  "fst (cleanup_old_backups (\<lambda>name. False) [''backups''] sample_store 2) = 2
   \<and> map timestamp
         (list_backups [''backups'']
            (snd (cleanup_old_backups (\<lambda>name. False) [''backups''] sample_store 2)))
       = [''20240128_123456_000005'', ''20240128_123456_000004'']"
proof -
  have d: "distinct (dict_keys sample_store)"
    by (simp add: sample_store_def)
  have ok: "\<forall>name \<in> set (dict_keys sample_store). \<not> (\<lambda>name. False) name"
    by simp
  have k: "(0::int) \<le> 2"
    by simp
  have "length (map timestamp (list_backups [''backups''] sample_store))
          = length [''20240128_123456_000005'', ''20240128_123456_000004'',
                    ''20240128_123456_000003'', ''20240128_123456_000001'']"
    by (simp only: sample_listing)
  then have n: "length (list_backups [''backups''] sample_store) = 4"
    by simp
  have t: "map timestamp (take 2 (list_backups [''backups''] sample_store))
             = [''20240128_123456_000005'', ''20240128_123456_000004'']"
    by (simp add: take_map [symmetric] sample_listing)
  note th = cleanup_old_backups_keeps_newest [OF k d ok, of "[''backups'']"]
  from th have a: "fst (cleanup_old_backups (\<lambda>name. False) [''backups''] sample_store 2)
                     = max (int (length (list_backups [''backups''] sample_store)) - 2) 0"
    by (elim conjE)
  from th have b: "list_backups [''backups'']
            (snd (cleanup_old_backups (\<lambda>name. False) [''backups''] sample_store 2))
          = take (nat 2) (list_backups [''backups''] sample_store)"
    by (elim conjE)
  from a n have a': "fst (cleanup_old_backups (\<lambda>name. False) [''backups''] sample_store 2) = 2"
    by simp
  from b t have b': "map timestamp
         (list_backups [''backups'']
            (snd (cleanup_old_backups (\<lambda>name. False) [''backups''] sample_store 2)))
       = [''20240128_123456_000005'', ''20240128_123456_000004'']"
    by simp
  from a' b' show ?thesis
    by (intro conjI)
qed

section \<open>Resolving a client by keyword\<close>

lemma keys_add_client:
  "set (dict_keys (add_client c kw)) = insert (fst c) (set (dict_keys kw))"
  by (auto simp: add_client_def Let_def keys_dict_set)

lemma keys_fold_add_client:
  "set (dict_keys kw) \<subseteq> set (dict_keys (fold add_client cs kw))"
proof (induction cs arbitrary: kw)
  case Nil
  then show ?case by simp
next
  case (Cons c cs)
  have "set (dict_keys kw) \<subseteq> set (dict_keys (add_client c kw))"
    by (auto simp: keys_add_client)
  also have "\<dots> \<subseteq> set (dict_keys (fold add_client cs (add_client c kw)))"
    by (rule Cons.IH)
  finally show ?case by simp
qed

lemma codex_in_index: "''codex'' \<in> set (dict_keys (build_keyword_index defs))"
proof -
  have d: "''codex'' \<in> set (dict_keys
             (fold (\<lambda>(client_id, ks) acc. dict_set client_id ks acc) DEFAULT_KEYWORDS []))"
    by (simp add: DEFAULT_KEYWORDS_def)
  show ?thesis
  proof (cases defs)
    case None
    with d show ?thesis by (simp add: build_keyword_index_def Let_def)
  next
    case (Some cs)
    with d keys_fold_add_client [of _ cs] show ?thesis
      by (auto simp: build_keyword_index_def Let_def)
  qed
qed

lemma codex_normal: "strip (lower ''codex'') = ''codex''"
  by (simp add: strip_def lower_def lower_char_def is_space_def)

lemma fold_best_step_below:
  "\<forall>m \<in> set ms. snd m < threshold \<Longrightarrow>
   fold (best_step threshold all_kw) ms (None, 0) = (None, 0)"
  by (induction ms) (simp_all add: best_step_def Let_def)

lemma process_extract_subset:
  "set (process_extract scorer q choices limit) \<subseteq> (\<lambda>c. (c, scorer q c)) ` set choices"
proof -
  have "set (process_extract scorer q choices limit)
          \<subseteq> set (rev (sort_key snd (rev (map (\<lambda>c. (c, scorer q c)) choices))))"
    unfolding process_extract_def by (rule set_take_subset)
  then show ?thesis by simp
qed

lemma find_None_iff_all:
  "find P xs = None \<longleftrightarrow> (\<forall>x \<in> set xs. \<not> P x)"
  by (induction xs) auto

text \<open>
  C8, as amended. For \<open>find_client\<close>: the empty query gives no match with score 0. A
  query that is not empty and whose normal form (lowercased, then stripped) is a client
  identity of the index gives that identity with score 100; in particular \<open>codex\<close> gives
  \<open>codex\<close> with score 100 for every registry and threshold. Otherwise, when the normal
  form equals the lowercased form of an indexed keyword, the first client in the order
  of the index that has such a keyword is returned with score 100. Otherwise, when no
  keyword scores at or above the threshold against the normal form, the result is no
  match with score 0.
\<close>

theorem find_client_exact_and_threshold:
  "find_client scorer index '''' threshold = (None, 0)
   \<and> (query \<noteq> '''' \<and> strip (lower query) \<in> set (dict_keys index) \<longrightarrow>
        find_client scorer index query threshold = (Some (strip (lower query)), 100))
   \<and> find_client scorer (build_keyword_index client_definitions) ''codex'' threshold
        = (Some ''codex'', 100)
   \<and> (query \<noteq> '''' \<and> strip (lower query) \<notin> set (dict_keys index) \<and>
       find (\<lambda>(keyword, client_id). strip (lower query) = lower keyword) (all_keywords index)
         = Some (kw, client) \<longrightarrow>
        find_client scorer index query threshold = (Some client, 100))
   \<and> (query \<noteq> '''' \<and>
       (strip (lower query) \<in> set (dict_keys index) \<or>
        (\<exists>keyword \<in> set (map fst (all_keywords index)). strip (lower query) = lower keyword))
       \<longrightarrow> (\<exists>c. find_client scorer index query threshold = (Some c, 100)))
   \<and> (strip (lower query) \<notin> set (dict_keys index) \<and>
       (\<forall>keyword \<in> set (map fst (all_keywords index)).
          strip (lower query) \<noteq> lower keyword \<and>
          scorer (strip (lower query)) keyword < threshold) \<longrightarrow>
        find_client scorer index query threshold = (None, 0))"
proof (intro conjI impI)
  show "find_client scorer index '''' threshold = (None, 0)"
    by (simp add: find_client_def)
next
  assume "query \<noteq> '''' \<and> strip (lower query) \<in> set (dict_keys index)"
  then show "find_client scorer index query threshold = (Some (strip (lower query)), 100)"
    by (simp add: find_client_def Let_def)
next
  show "find_client scorer (build_keyword_index client_definitions) ''codex'' threshold
        = (Some ''codex'', 100)"
    using codex_in_index [of client_definitions]
    by (simp add: find_client_def Let_def codex_normal)
next
  assume "query \<noteq> '''' \<and> strip (lower query) \<notin> set (dict_keys index) \<and>
       find (\<lambda>(keyword, client_id). strip (lower query) = lower keyword) (all_keywords index)
         = Some (kw, client)"
  then show "find_client scorer index query threshold = (Some client, 100)"
    by (simp add: find_client_def Let_def)
next
  assume h: "query \<noteq> '''' \<and>
       (strip (lower query) \<in> set (dict_keys index) \<or>
        (\<exists>keyword \<in> set (map fst (all_keywords index)). strip (lower query) = lower keyword))"
  show "\<exists>c. find_client scorer index query threshold = (Some c, 100)"
  proof (cases "strip (lower query) \<in> set (dict_keys index)")
    case True
    with h show ?thesis
      by (simp add: find_client_def Let_def)
  next
    case False
    with h obtain keyword where k: "keyword \<in> set (map fst (all_keywords index))"
      and e: "strip (lower query) = lower keyword"
      by blast
    from k obtain c where "(keyword, c) \<in> set (all_keywords index)"
      by auto
    with e have "find (\<lambda>(keyword, client_id). strip (lower query) = lower keyword)
                   (all_keywords index) \<noteq> None"
      by (auto simp: find_None_iff_all)
    then obtain kw' c' where
      "find (\<lambda>(keyword, client_id). strip (lower query) = lower keyword) (all_keywords index)
         = Some (kw', c')"
      by (cases "find (\<lambda>(keyword, client_id). strip (lower query) = lower keyword)
                   (all_keywords index)") auto
    with h False show ?thesis
      by (simp add: find_client_def Let_def)
  qed
next
  assume h: "strip (lower query) \<notin> set (dict_keys index) \<and>
       (\<forall>keyword \<in> set (map fst (all_keywords index)).
          strip (lower query) \<noteq> lower keyword \<and>
          scorer (strip (lower query)) keyword < threshold)"
  let ?q = "strip (lower query)"
  let ?all = "all_keywords index"
  from h have nf: "find (\<lambda>(keyword, client_id). ?q = lower keyword) ?all = None"
    by (auto simp: find_None_iff_all)
  have below: "\<forall>m \<in> set (process_extract scorer ?q (map fst ?all) 5). snd m < threshold"
  proof
    fix m assume "m \<in> set (process_extract scorer ?q (map fst ?all) 5)"
    with process_extract_subset [of scorer ?q "map fst ?all" 5]
    have "m \<in> (\<lambda>c. (c, scorer ?q c)) ` set (map fst ?all)"
      by (rule subsetD)
    then obtain c where c: "c \<in> set (map fst ?all)" and m: "m = (c, scorer ?q c)"
      by (rule imageE)
    from h c have "scorer ?q c < threshold" by blast
    with m show "snd m < threshold" by simp
  qed
  show "find_client scorer index query threshold = (None, 0)"
    using h nf fold_best_step_below [OF below]
    by (simp add: find_client_def Let_def)
qed

text \<open>
  With the built-in table: \<open>CLAUDE\<close> is the keyword \<open>claude\<close> of \<open>claude-code\<close>,
  \<open>codex\<close> is an identity, and \<open>xyz\<close> is no identity and no keyword and scores below
  60 with every keyword under the sample scorer.
\<close>

theorem find_client_exact_and_threshold_witness:
  "find_client exact_scorer (build_keyword_index None) ''CLAUDE'' 60 = (Some ''claude-code'', 100)
   \<and> find_client exact_scorer (build_keyword_index None) ''codex'' 60 = (Some ''codex'', 100)
   \<and> find_client exact_scorer (build_keyword_index None) ''xyz'' 60 = (None, 0)
   \<and> find_client exact_scorer (build_keyword_index None) '''' 60 = (None, 0)"
proof -
  let ?idx = "build_keyword_index None"
  have h1: "''CLAUDE'' \<noteq> '''' \<and> strip (lower ''CLAUDE'') \<notin> set (dict_keys ?idx) \<and>
       find (\<lambda>(keyword, client_id). strip (lower ''CLAUDE'') = lower keyword) (all_keywords ?idx)
         = Some (''claude'', ''claude-code'')"
    by code_simp
  have h2: "strip (lower ''xyz'') \<notin> set (dict_keys ?idx) \<and>
       (\<forall>keyword \<in> set (map fst (all_keywords ?idx)).
          strip (lower ''xyz'') \<noteq> lower keyword \<and>
          exact_scorer (strip (lower ''xyz'')) keyword < 60)"
    by code_simp
  have a: "find_client exact_scorer ?idx ''CLAUDE'' 60 = (Some ''claude-code'', 100)"
    using find_client_exact_and_threshold
            [where scorer = exact_scorer and index = ?idx and threshold = 60
               and query = "''CLAUDE''" and kw = "''claude''" and client = "''claude-code''"]
          h1
    by blast
  have b: "find_client exact_scorer ?idx ''codex'' 60 = (Some ''codex'', 100)
           \<and> find_client exact_scorer ?idx '''' 60 = (None, 0)"
    using find_client_exact_and_threshold
            [where scorer = exact_scorer and index = ?idx and threshold = 60
               and client_definitions = None]
    by blast
  have c: "find_client exact_scorer ?idx ''xyz'' 60 = (None, 0)"
    using find_client_exact_and_threshold
            [where scorer = exact_scorer and index = ?idx and threshold = 60
               and query = "''xyz''"]
          h2
    by blast
  from a b c show ?thesis
    by blast
qed

text \<open>
  With the client definitions of the tests the string \<open>vscode\<close> is a keyword indexed
  for the client \<open>vscode-user\<close> and also the identity of the client \<open>vscode\<close>: the query
  \<open>vscode\<close> returns the identity \<open>vscode\<close>, not the client of the keyword. And the
  identity \<open>vscode-user\<close> of the built-in table, which is not one of its keywords, is
  returned with score 100 also when no keyword reaches the threshold. The claim as it
  was stated asks for the client of the keyword in the first case and for no match in the
  second.
\<close>

theorem find_client_precedence_counterexample:
  "(''vscode'', ''vscode-user'') \<in> set (all_keywords (build_keyword_index (Some sample_clients)))
   \<and> find_client exact_scorer (build_keyword_index (Some sample_clients)) ''vscode'' 60
       = (Some ''vscode'', 100)
   \<and> list_all (\<lambda>keyword. exact_scorer ''vscode-user'' keyword < 100)
         (map fst (all_keywords (build_keyword_index None)))
   \<and> find_client exact_scorer (build_keyword_index None) ''vscode-user'' 100
       = (Some ''vscode-user'', 100)"
  by code_simp

section \<open>Writing and reading back a Codex configuration\<close>

text \<open>
  C2, as amended. Let \<open>C\<close> be a configuration (a dict) whose entries are steady for the
  target platform, written by the TOML adapter (with or without \<open>preserve_existing\<close>)
  to a path whose document, if any, is a well-formed TOML document, and let the write
  succeed. Reading the file back gives a
  configuration with the names of \<open>C\<close> in which every entry has the command of the
  entry of \<open>C\<close> (\<open>npx\<close> when it has none), its \<open>env\<close>, its args with \<open>-y\<close> put in
  front when the command is \<open>npx\<close> and \<open>-y\<close> is not among them, and as timeout the
  timeout of the entry, or 60000 when it has none; so the read-back entry equals the
  entry of \<open>C\<close> on command, args, env and timeout when that entry has all four and
  already carries the flag. Writing the read-back configuration again leaves the file
  exactly as the first write left it: \<open>-y\<close> is not prepended twice.
\<close>

theorem codex_round_trip:
  assumes io: "\<not> write_fails h"
    and cfg: "mcpServers cfg = Some C"
    and dist: "distinct (dict_keys C)"
    and steady: "\<forall>e \<in> set C. steady (is_windows h) (snd e)"
    and ok: "table_ok fs p"
  shows
    "\<exists>fs1 C1.
       codex_write_config h fs p cfg preserve_existing = (True, fs1)
       \<and> mcpServers (codex_read_config fs1 p) = Some C1
       \<and> distinct (dict_keys C1) \<and> set (dict_keys C1) = set (dict_keys C)
       \<and> (\<forall>n s. dict_get C n = Some s \<longrightarrow>
             (\<exists>s1. dict_get C1 n = Some s1
                \<and> command s1 = Some (get_or (command s) ''npx'')
                \<and> args s1 = Some (confirmed_args s)
                \<and> env s1 = Some (get_or (env s) [])
                \<and> timeout_ms s1 = Some (written_timeout s)
                \<and> (command s \<noteq> None \<and> args s = Some (confirmed_args s) \<and> env s \<noteq> None
                     \<and> timeout_ms s \<noteq> None \<longrightarrow>
                     command s1 = command s \<and> args s1 = args s \<and> env s1 = env s
                     \<and> timeout_ms s1 = timeout_ms s)))
       \<and> codex_write_config h fs1 p (codex_read_config fs1 p) preserve_existing = (True, fs1)"
proof -
  let ?fs1 = "snd (codex_write_config h fs p cfg preserve_existing)"
  note wrw = codex_write_read_write [OF io cfg dist steady ok, of preserve_existing]
  from wrw(2) obtain C1 where
    r: "mcpServers (codex_read_config ?fs1 p) = Some C1"
    and d: "distinct (dict_keys C1)" and k: "set (dict_keys C1) = set (dict_keys C)"
    and g: "\<And>n s. dict_get C n = Some s \<Longrightarrow>
              dict_get C1 n = Some (parse_codex_server (format_codex_server (is_windows h) s))"
    by blast
  have w: "codex_write_config h fs p cfg preserve_existing = (True, ?fs1)"
    using wrw(1) by (simp add: prod_eq_iff)
  have fields: "\<exists>s1. dict_get C1 n = Some s1
                \<and> command s1 = Some (get_or (command s) ''npx'')
                \<and> args s1 = Some (confirmed_args s)
                \<and> env s1 = Some (get_or (env s) [])
                \<and> timeout_ms s1 = Some (written_timeout s)
                \<and> (command s \<noteq> None \<and> args s = Some (confirmed_args s) \<and> env s \<noteq> None
                     \<and> timeout_ms s \<noteq> None \<longrightarrow>
                     command s1 = command s \<and> args s1 = args s \<and> env s1 = env s
                     \<and> timeout_ms s1 = timeout_ms s)"
    if s: "dict_get C n = Some s" for n s
  proof -
    from dict_get_SomeD [OF s] steady have st: "steady (is_windows h) s"
      by force
    from st have t0: "timeout_ms s \<noteq> Some 0"
      by (simp add: steady_def)
    have tm: "timeout_ms s \<noteq> None \<Longrightarrow> Some (written_timeout s) = timeout_ms s"
      using t0 by (auto simp: written_timeout_def py_or_def)
    show ?thesis
      using g [OF s] tm
      by (auto simp: parse_format [OF st] get_or_simps)
  qed
  show ?thesis
    using w r d k fields wrw(3) by blast
qed

text \<open>
  The entry of the test \<open>test_write_config_macos_format\<close> with an \<open>env\<close> and a timeout,
  written to a new file: it is read back with \<open>-y\<close> in front of its args, and a second
  write changes nothing, on Linux and on Windows.
\<close>

lemma steady_npx_entry: "steady w npx_entry"
  by (simp add: steady_def npx_entry_def get_or_simps system_vars_def launcher_def
      lower_def lower_char_def)

lemma sample_first_write:
  "codex_read_config (snd (codex_write_config linux_host [] sample_toml_path
                             sample_toml_config True)) sample_toml_path
     = \<lparr> mcpServers = Some [(''test-server'', npx_entry\<lparr>args := Some [''-y'', ''package'']\<rparr>)],
         other_keys = [] \<rparr>"
  by (simp add: codex_write_config_def codex_read_config_def linux_host_def sample_toml_config_def
      sample_toml_path_def path_exists_def get_or_simps Let_def empty_doc_def npx_entry_def
      format_codex_server_def parse_codex_server_def py_or_def system_vars_def
      lower_def lower_char_def)

theorem codex_round_trip_witness:
  "codex_read_config (snd (codex_write_config linux_host [] sample_toml_path
                             sample_toml_config True)) sample_toml_path
     = \<lparr> mcpServers = Some [(''test-server'', npx_entry\<lparr>args := Some [''-y'', ''package'']\<rparr>)],
         other_keys = [] \<rparr>
   \<and> codex_write_config linux_host
         (snd (codex_write_config linux_host [] sample_toml_path sample_toml_config True))
         sample_toml_path
         (codex_read_config (snd (codex_write_config linux_host [] sample_toml_path
                                    sample_toml_config True)) sample_toml_path) True
       = (True, snd (codex_write_config linux_host [] sample_toml_path sample_toml_config True))
   \<and> codex_write_config windows_host
         (snd (codex_write_config windows_host [] sample_toml_path sample_toml_config True))
         sample_toml_path
         (codex_read_config (snd (codex_write_config windows_host [] sample_toml_path
                                    sample_toml_config True)) sample_toml_path) True
       = (True, snd (codex_write_config windows_host [] sample_toml_path sample_toml_config True))"
proof -
  have io: "\<not> write_fails linux_host" "\<not> write_fails windows_host"
    by (simp_all add: linux_host_def windows_host_def)
  have cfg: "mcpServers sample_toml_config = Some [(''test-server'', npx_entry)]"
    by (simp add: sample_toml_config_def)
  have dist: "distinct (dict_keys [(''test-server'', npx_entry)])"
    by simp
  have st: "\<forall>e \<in> set [(''test-server'', npx_entry)]. steady w (snd e)" for w
    by (simp add: steady_npx_entry)
  have ok: "table_ok [] sample_toml_path"
    by (simp add: table_ok_def)
  have twice: "codex_write_config h (snd (codex_write_config h [] sample_toml_path
                                              sample_toml_config True))
         sample_toml_path
         (codex_read_config (snd (codex_write_config h [] sample_toml_path
                                    sample_toml_config True)) sample_toml_path) True
       = (True, snd (codex_write_config h [] sample_toml_path sample_toml_config True))"
    if h: "\<not> write_fails h" for h
  proof -
    from codex_round_trip [OF h cfg dist st ok, where preserve_existing = True]
    obtain fs1 where
      1: "codex_write_config h [] sample_toml_path sample_toml_config True = (True, fs1)"
      and 2: "codex_write_config h fs1 sample_toml_path
                (codex_read_config fs1 sample_toml_path) True = (True, fs1)"
      by blast
    from 1 have "snd (codex_write_config h [] sample_toml_path sample_toml_config True) = fs1"
      by simp
    with 2 show ?thesis
      by simp
  qed
  from sample_first_write twice [OF io(1)] twice [OF io(2)] show ?thesis
    by (intro conjI)
qed

text \<open>
  The claim as it was stated fails on the args: the entry \<open>npx package\<close> is read back
  as \<open>npx -y package\<close>.
\<close>

theorem codex_round_trip_args_counterexample:
  "dict_get (get_or (mcpServers (codex_read_config
       (snd (codex_write_config linux_host [] sample_toml_path sample_toml_config True))
       sample_toml_path)) []) ''test-server''
     = Some (npx_entry\<lparr>args := Some [''-y'', ''package'']\<rparr>)
   \<and> dict_get (get_or (mcpServers sample_toml_config) []) ''test-server'' = Some npx_entry
   \<and> args (npx_entry\<lparr>args := Some [''-y'', ''package'']\<rparr>) \<noteq> args npx_entry"
proof (intro conjI)
  show "dict_get (get_or (mcpServers (codex_read_config
       (snd (codex_write_config linux_host [] sample_toml_path sample_toml_config True))
       sample_toml_path)) []) ''test-server''
     = Some (npx_entry\<lparr>args := Some [''-y'', ''package'']\<rparr>)"
    by (simp only: sample_first_write) (simp add: get_or_simps)
  show "dict_get (get_or (mcpServers sample_toml_config) []) ''test-server'' = Some npx_entry"
    by (simp add: get_or_simps sample_toml_config_def)
  show "args (npx_entry\<lparr>args := Some [''-y'', ''package'']\<rparr>) \<noteq> args npx_entry"
    by (simp add: npx_entry_def)
qed

text \<open>Why the round trip is stated for steady entries only.\<close>

lemma second_write_drops_system_var:
  "format_codex_server False
     (parse_codex_server (format_codex_server False
        (npx_entry\<lparr>env := Some [(''SystemDrive'', ''C:'')]\<rparr>)))
   \<noteq> format_codex_server False (npx_entry\<lparr>env := Some [(''SystemDrive'', ''C:'')]\<rparr>)"
  by (simp add: npx_entry_def format_codex_server_def parse_codex_server_def py_or_def
      system_vars_def get_or_simps Let_def lower_def lower_char_def)

lemma second_write_unwraps_launcher:
  "format_codex_server False
     (parse_codex_server (format_codex_server False
        (npx_entry\<lparr>command := Some ''cmd'', args := Some [''/c'', ''dir'']\<rparr>)))
   \<noteq> format_codex_server False (npx_entry\<lparr>command := Some ''cmd'', args := Some [''/c'', ''dir'']\<rparr>)"
  by (simp add: npx_entry_def format_codex_server_def parse_codex_server_def py_or_def
      system_vars_def get_or_simps Let_def lower_def lower_char_def)

lemma second_write_resets_zero_timeout:
  "format_codex_server False
     (parse_codex_server (format_codex_server False
        (npx_entry\<lparr>timeout_ms := Some 0, startup_timeout_ms := Some 0\<rparr>)))
   \<noteq> format_codex_server False (npx_entry\<lparr>timeout_ms := Some 0, startup_timeout_ms := Some 0\<rparr>)"
  by (simp add: npx_entry_def format_codex_server_def parse_codex_server_def py_or_def
      system_vars_def get_or_simps Let_def lower_def lower_char_def)

end
